theory Spec2Isabelle
  imports Main "HOL-Library.AList"
begin

section \<open>Data model of \<^verbatim>\<open>backend/socket/classHandlers.js\<close>\<close>

text \<open>
  The server keeps two module-level \<^verbatim>\<open>Map\<close>s (\<^verbatim>\<open>inMemoryCache\<close>, \<^verbatim>\<open>debounceTimers\<close>),
  talks to two Mongoose models (\<^verbatim>\<open>Class\<close>, \<^verbatim>\<open>CodeSession\<close>) and to Socket.IO (rooms, emits).
  Every handler runs on Node's single event loop: a handler runs without interruption up to
  its next \<^verbatim>\<open>await\<close>, and the code after the \<^verbatim>\<open>await\<close> runs later as a separate turn. The
  model therefore is a state record and one function per turn.

  A socket id is a string. Times are milliseconds (\<^verbatim>\<open>Date.now()\<close>).
\<close>

type_synonym sid = string

text \<open>The object stored in \<^verbatim>\<open>inMemoryCache\<close> (\<^verbatim>\<open>sessionData\<close>, lines 46-54 and 119-127).\<close>

record session =
  studentId :: string
  studentName :: string
  classCode :: string
  socketId :: sid
  html :: string
  css :: string
  lastUpdate :: nat

text \<open>A document of the \<^verbatim>\<open>Class\<close> collection; only the two fields the handlers read.\<close>

record class_doc =
  cls_classCode :: string
  cls_isActive :: bool

text \<open>The events the server emits, one constructor per event name, fields in payload order.\<close>

datatype payload =
    join_error string
  | rejoin_error string bool
  | student_joined string sid string nat bool
  | join_success string sid bool
  | rejoin_success string sid
  | student_code_snapshot sid string string string nat
  | student_code_update sid string string nat
  | student_list "(sid \<times> string \<times> string \<times> nat) list"
  | teacher_message string
  | student_left sid string string

text \<open>
  The calls made on the \<^verbatim>\<open>CodeSession\<close> model: \<^verbatim>\<open>create\<close> (line 58),
  \<^verbatim>\<open>updateOne({studentId}, ...)\<close> with upsert (line 131) and
  \<^verbatim>\<open>updateOne({socketId}, {html, css, lastUpdate})\<close> (lines 244 and 329).
\<close>

datatype store_op =
    CodeSession_create string string string sid nat
  | CodeSession_upsertByStudentId string sid string nat
  | CodeSession_updateBySocketId sid string string nat

text \<open>
  What runs when the promise of a store call settles: the \<^verbatim>\<open>.catch\<close> of lines 64 and 139,
  the rest of the timer callback (lines 248-251), the rest of the disconnect handler
  (lines 333-348, which still holds the \<^verbatim>\<open>session\<close> read at line 318).
\<close>

datatype continuation =
    after_create
  | after_rejoin_update
  | after_debounced_update sid
  | after_final_update sid session

text \<open>A pending \<^verbatim>\<open>setTimeout\<close>: its handle, its due time, and the closure of lines 242-252.\<close>

record timeout =
  handle :: nat
  due :: nat
  cb_socket :: sid
  cb_html :: string
  cb_css :: string

text \<open>An awaited promise either rejects (the \<^verbatim>\<open>catch\<close> branch runs) or resolves.\<close>

datatype 'a awaited = Rejected | Resolved 'a

record state =
  now :: nat
  classes :: "class_doc list"
  inMemoryCache :: "(sid \<times> session) list"
  debounceTimers :: "sid \<rightharpoonup> nat"
  timeouts :: "timeout list"
  nextHandle :: nat
  rooms :: "string \<Rightarrow> sid set"
  currentSubscription :: "sid \<rightharpoonup> string"
  outbox :: "(sid set \<times> payload) list"
  storeOps :: "store_op list"
  awaiting :: "(nat \<times> continuation) list"
  console :: "string list"

definition DEBOUNCE_DELAY :: nat where
  "DEBOUNCE_DELAY = 3000"

definition MAX_STUDENTS_PER_CLASS :: nat where
  "MAX_STUDENTS_PER_CLASS = 60"

definition init :: "class_doc list \<Rightarrow> state" where
  "init cs = \<lparr> now = 0, classes = cs, inMemoryCache = [], debounceTimers = Map.empty,
     timeouts = [], nextHandle = 0, rooms = (\<lambda>r. {}), currentSubscription = Map.empty,
     outbox = [], storeOps = [], awaiting = [], console = [] \<rparr>"

section \<open>The library operations the handlers call\<close>

subsection \<open>\<^verbatim>\<open>Map\<close>: an association list in insertion order\<close>

definition cache_get :: "(sid \<times> session) list \<Rightarrow> sid \<Rightarrow> session option" where
  "cache_get c k = map_of c k"

definition cache_set :: "sid \<Rightarrow> session \<Rightarrow> (sid \<times> session) list \<Rightarrow> (sid \<times> session) list" where
  "cache_set k v c = AList.update k v c"

definition cache_delete :: "sid \<Rightarrow> (sid \<times> session) list \<Rightarrow> (sid \<times> session) list" where
  "cache_delete k c = AList.delete k c"

definition cache_values :: "(sid \<times> session) list \<Rightarrow> session list" where
  "cache_values c = map snd c"

subsection \<open>Socket.IO: rooms and emits\<close>

text \<open>
  \<^verbatim>\<open>socket.emit\<close> delivers to the socket itself; \<^verbatim>\<open>socket.to(room).emit\<close> delivers to the
  sockets that are in the room when the emit runs, the sender left out. The outbox records
  each emit with the set of sockets it is delivered to.
\<close>

definition emit_self :: "sid \<Rightarrow> payload \<Rightarrow> state \<Rightarrow> state" where
  "emit_self sock p s = s\<lparr>outbox := outbox s @ [({sock}, p)]\<rparr>"

definition emit_to_room :: "sid \<Rightarrow> string \<Rightarrow> payload \<Rightarrow> state \<Rightarrow> state" where
  "emit_to_room sock room p s = s\<lparr>outbox := outbox s @ [(rooms s room - {sock}, p)]\<rparr>"

definition socket_join :: "sid \<Rightarrow> string \<Rightarrow> state \<Rightarrow> state" where
  "socket_join sock room s = s\<lparr>rooms := (rooms s)(room := insert sock (rooms s room))\<rparr>"

definition socket_leave :: "sid \<Rightarrow> string \<Rightarrow> state \<Rightarrow> state" where
  "socket_leave sock room s = s\<lparr>rooms := (rooms s)(room := rooms s room - {sock})\<rparr>"

text \<open>The room of one student: the template string \<^verbatim>\<open>`student:${id}`\<close>.\<close>

definition student_room :: "sid \<Rightarrow> string" where
  "student_room i = ''student:'' @ i"

subsection \<open>Timers, the store and the console\<close>

definition setTimeout :: "sid \<Rightarrow> string \<Rightarrow> string \<Rightarrow> nat \<Rightarrow> state \<Rightarrow> state" where
  "setTimeout sock h c delay s =
     s\<lparr>timeouts := timeouts s @
          [\<lparr>handle = nextHandle s, due = now s + delay, cb_socket = sock, cb_html = h, cb_css = c\<rparr>],
       nextHandle := Suc (nextHandle s)\<rparr>"

text \<open>\<^verbatim>\<open>clearTimeout\<close> of a timer that has fired or was cleared does nothing.\<close>

definition clearTimeout :: "nat \<Rightarrow> state \<Rightarrow> state" where
  "clearTimeout t s = s\<lparr>timeouts := filter (\<lambda>x. handle x \<noteq> t) (timeouts s)\<rparr>"

text \<open>
  A store call is recorded when it is made; its promise settles in a later turn, named by
  the position of the call in the record.
\<close>

definition db_start :: "store_op \<Rightarrow> continuation \<Rightarrow> state \<Rightarrow> state" where
  "db_start opn k s =
     s\<lparr>storeOps := storeOps s @ [opn], awaiting := awaiting s @ [(length (storeOps s), k)]\<rparr>"

text \<open>Only \<^verbatim>\<open>console.error\<close> is recorded; the informational \<^verbatim>\<open>console.log\<close> lines are not.\<close>

definition console_error :: "string \<Rightarrow> state \<Rightarrow> state" where
  "console_error msg s = s\<lparr>console := console s @ [msg]\<rparr>"

subsection \<open>Mongoose: \<^verbatim>\<open>Class.findOne({ classCode })\<close>\<close>

text \<open>
  The schema declares \<^verbatim>\<open>classCode: { type: String, unique: true, uppercase: true }\<close>.
  Mongoose implements \<^verbatim>\<open>uppercase\<close> as a setter that calls \<^verbatim>\<open>toUpperCase()\<close>, and it runs
  the setters of a path on the values stored under it and on the value of a query filter
  for it. So the filter value is upper-cased and then compared for equality with the
  stored codes.

  A string is the list of the bytes of its UTF-8 encoding. JavaScript's \<^verbatim>\<open>toUpperCase\<close> maps
  a string code point by code point, by the case-mapping tables of Unicode, which are no
  part of this repository. Two parts of the tables are written out here: the ASCII rows
  (\<open>a\<close> to \<open>z\<close> go to \<open>A\<close> to \<open>Z\<close>, every other ASCII character to itself) and the row of
  U+FB00, the ligature of two small letters f, whose upper case is the two letters \<open>FF\<close>.
  What \<^verbatim>\<open>toUpperCase\<close> returns for a string with any other code point beyond ASCII is
  left unspecified.
\<close>

definition is_ascii :: "char \<Rightarrow> bool" where
  "is_ascii c = ((of_char c :: nat) < 128)"

definition toUpperCase_ascii :: "char \<Rightarrow> char" where
  "toUpperCase_ascii c =
     (let n = (of_char c :: nat) in if 97 \<le> n \<and> n \<le> 122 then char_of (n - 32) else c)"

definition ligature_ff :: string where
  "ligature_ff = [CHR 0xEF, CHR 0xAC, CHR 0x80]"

fun toUpperCase :: "string \<Rightarrow> string" where
  "toUpperCase [] = []"
| "toUpperCase (c # cs) =
     (if is_ascii c then toUpperCase_ascii c # toUpperCase cs
      else if c # take 2 cs = ligature_ff then ''FF'' @ toUpperCase (drop 2 cs)
      else undefined (c # cs))"

definition Class_findOne :: "class_doc list \<Rightarrow> string \<Rightarrow> class_doc option" where
  "Class_findOne coll code = find (\<lambda>d. cls_classCode d = toUpperCase code) coll"

section \<open>The handlers\<close>

definition count_in_class :: "(sid \<times> session) list \<Rightarrow> string \<Rightarrow> nat" where
  "count_in_class c code = length (filter (\<lambda>session. classCode session = code) (cache_values c))"

text \<open>
  \<^verbatim>\<open>join_class\<close> (lines 20-87), from the point where \<^verbatim>\<open>await Class.findOne\<close> has settled
  with \<open>res\<close>. \<open>uuid\<close> is what \<^verbatim>\<open>crypto.randomUUID()\<close> returns.
\<close>

definition join_class ::
  "sid \<Rightarrow> string \<Rightarrow> string \<Rightarrow> string \<Rightarrow> class_doc option awaited \<Rightarrow> state \<Rightarrow> state" where
  "join_class sock name code uuid res s =
     (case res of
        Rejected \<Rightarrow>
          emit_self sock (join_error ''Server error, please try again'')
            (console_error ''join_class error:'' s)
      | Resolved None \<Rightarrow> emit_self sock (join_error ''Invalid class code'') s
      | Resolved (Some classDoc) \<Rightarrow>
          if \<not> cls_isActive classDoc
          then emit_self sock (join_error ''Class is not currently active'') s
          else if count_in_class (inMemoryCache s) code \<ge> MAX_STUDENTS_PER_CLASS
          then emit_self sock (join_error ''Class is full (maximum 60 students)'') s
          else
            let sessionData = \<lparr> studentId = uuid, studentName = name, classCode = code,
                    socketId = sock, html = '''', css = '''', lastUpdate = now s \<rparr>;
                s1 = s\<lparr>inMemoryCache := cache_set sock sessionData (inMemoryCache s)\<rparr>;
                s2 = db_start (CodeSession_create uuid name code sock (now s + 24 * 60 * 60 * 1000))
                       after_create s1;
                s3 = socket_join sock code s2;
                s4 = emit_to_room sock code (student_joined name sock uuid (now s) False) s3
            in emit_self sock (join_success uuid sock (cls_isActive classDoc)) s4)"

text \<open>\<^verbatim>\<open>rejoin_class\<close> (lines 92-162), from the point where the lookup has settled.\<close>

definition rejoin_class ::
  "sid \<Rightarrow> string \<Rightarrow> string \<Rightarrow> string \<Rightarrow> class_doc option awaited \<Rightarrow> state \<Rightarrow> state" where
  "rejoin_class sock stid name code res s =
     (case res of
        Rejected \<Rightarrow>
          emit_self sock (rejoin_error ''Server error, please try again'' False)
            (console_error ''rejoin_class error:'' s)
      | Resolved None \<Rightarrow> emit_self sock (rejoin_error ''Invalid class code'' False) s
      | Resolved (Some classDoc) \<Rightarrow>
          if \<not> cls_isActive classDoc
          then emit_self sock (rejoin_error ''Class is not currently live'' True) s
          else if count_in_class (inMemoryCache s) code \<ge> MAX_STUDENTS_PER_CLASS
          then emit_self sock (rejoin_error ''Class is full (maximum 60 students)'' False) s
          else
            let sessionData = \<lparr> studentId = stid, studentName = name, classCode = code,
                    socketId = sock, html = '''', css = '''', lastUpdate = now s \<rparr>;
                s1 = s\<lparr>inMemoryCache := cache_set sock sessionData (inMemoryCache s)\<rparr>;
                s2 = db_start (CodeSession_upsertByStudentId stid sock name
                                 (now s + 24 * 60 * 60 * 1000))
                       after_rejoin_update s1;
                s3 = socket_join sock code s2;
                s4 = emit_to_room sock code (student_joined name sock stid (now s) True) s3
            in emit_self sock (rejoin_success stid sock) s4)"

text \<open>\<^verbatim>\<open>teacher_join_room\<close> (lines 167-176).\<close>

definition teacher_join_room :: "sid \<Rightarrow> string \<Rightarrow> state \<Rightarrow> state" where
  "teacher_join_room sock code s = socket_join sock code s"

text \<open>
  \<^verbatim>\<open>subscribe_to_student\<close> (lines 181-209). \<^verbatim>\<open>if (socket.currentSubscription)\<close> is a
  truthiness test: an unset property and the empty string both fail it.
\<close>

definition subscribe_to_student :: "sid \<Rightarrow> string \<Rightarrow> state \<Rightarrow> state" where
  "subscribe_to_student sock studentSocketId s =
     (let s1 = (case currentSubscription s sock of
                  None \<Rightarrow> s
                | Some cur \<Rightarrow> if cur = [] then s else socket_leave sock (student_room cur) s);
          s2 = socket_join sock (student_room studentSocketId) s1;
          s3 = s2\<lparr>currentSubscription := (currentSubscription s2)(sock \<mapsto> studentSocketId)\<rparr>
      in case cache_get (inMemoryCache s3) studentSocketId of
           None \<Rightarrow> s3
         | Some studentCode \<Rightarrow>
             emit_self sock
               (student_code_snapshot studentSocketId (html studentCode) (css studentCode)
                  (studentName studentCode) (lastUpdate studentCode)) s3)"

text \<open>\<^verbatim>\<open>code_update\<close> (lines 214-257), up to and including the \<^verbatim>\<open>setTimeout\<close>.\<close>

definition code_update :: "sid \<Rightarrow> string \<Rightarrow> string \<Rightarrow> state \<Rightarrow> state" where
  "code_update sock h c s =
     (case cache_get (inMemoryCache s) sock of
        None \<Rightarrow> s
      | Some session \<Rightarrow>
          let s1 = s\<lparr>inMemoryCache :=
                      cache_set sock (session\<lparr>html := h, css := c, lastUpdate := now s\<rparr>)
                        (inMemoryCache s)\<rparr>;
              s2 = emit_to_room sock (student_room sock) (student_code_update sock h c (now s)) s1;
              s3 = (case debounceTimers s2 sock of
                      None \<Rightarrow> s2
                    | Some t \<Rightarrow> clearTimeout t s2);
              s4 = setTimeout sock h c DEBOUNCE_DELAY s3
          in s4\<lparr>debounceTimers := (debounceTimers s4)(sock \<mapsto> nextHandle s3)\<rparr>)"

text \<open>
  The timer callback (lines 242-252) up to its \<^verbatim>\<open>await\<close>: the timer leaves Node's queue and
  the update is sent to the store.
\<close>

definition fire_timeout :: "timeout \<Rightarrow> state \<Rightarrow> state" where
  "fire_timeout x s =
     (let s1 = s\<lparr>now := max (now s) (due x),
                  timeouts := filter (\<lambda>y. handle y \<noteq> handle x) (timeouts s)\<rparr>
      in db_start (CodeSession_updateBySocketId (cb_socket x) (cb_html x) (cb_css x) (now s1))
           (after_debounced_update (cb_socket x)) s1)"

text \<open>\<^verbatim>\<open>get_student_list\<close> (lines 262-277).\<close>

definition get_student_list :: "sid \<Rightarrow> string \<Rightarrow> state \<Rightarrow> state" where
  "get_student_list sock code s =
     emit_self sock
       (student_list
          (map (\<lambda>session. (socketId session, studentId session, studentName session,
                           lastUpdate session))
             (filter (\<lambda>session. classCode session = code) (cache_values (inMemoryCache s))))) s"

text \<open>\<^verbatim>\<open>teacher_broadcast\<close> (lines 282-289).\<close>

definition teacher_broadcast :: "sid \<Rightarrow> string \<Rightarrow> string \<Rightarrow> state \<Rightarrow> state" where
  "teacher_broadcast sock code message s = emit_to_room sock code (teacher_message message) s"

text \<open>
  \<^verbatim>\<open>disconnect\<close> (lines 316-352), up to its \<^verbatim>\<open>await\<close>. Socket.IO takes the socket out of
  all its rooms before it calls the handler, and the socket object (with its
  \<^verbatim>\<open>currentSubscription\<close> property) is gone afterwards.
\<close>

definition socket_closed :: "sid \<Rightarrow> state \<Rightarrow> state" where
  "socket_closed sock s =
     s\<lparr>rooms := (\<lambda>r. rooms s r - {sock}),
       currentSubscription := (currentSubscription s)(sock := None)\<rparr>"

text \<open>Lines 321-325: the timer registered for the socket is cleared and its entry deleted.\<close>

definition clear_debounce :: "sid \<Rightarrow> state \<Rightarrow> state" where
  "clear_debounce sock s =
     (case debounceTimers s sock of
        None \<Rightarrow> s
      | Some t \<Rightarrow> (clearTimeout t s)\<lparr>debounceTimers := (debounceTimers s)(sock := None)\<rparr>)"

definition disconnect :: "sid \<Rightarrow> state \<Rightarrow> state" where
  "disconnect sock s0 =
     (let s = socket_closed sock s0 in
      case cache_get (inMemoryCache s) sock of
        None \<Rightarrow> s
      | Some session \<Rightarrow>
          db_start (CodeSession_updateBySocketId sock (html session) (css session) (now s))
            (after_final_update sock session) (clear_debounce sock s))"

text \<open>
  The turn that runs when a store promise settles: \<open>ok\<close> tells whether it resolved.
  After the debounced update (lines 248-251) a resolved promise deletes the map entry of the
  socket, a rejected one logs. After the final update (lines 333-348) a rejected promise
  logs, and in both cases the handler goes on to delete the session and notify the room.
\<close>

definition run_continuation :: "continuation \<Rightarrow> bool \<Rightarrow> state \<Rightarrow> state" where
  "run_continuation k ok s =
     (case k of
        after_create \<Rightarrow> if ok then s else console_error ''DB save error:'' s
      | after_rejoin_update \<Rightarrow> if ok then s else console_error ''DB update error:'' s
      | after_debounced_update sock \<Rightarrow>
          if ok then s\<lparr>debounceTimers := (debounceTimers s)(sock := None)\<rparr>
          else console_error ''DB update error:'' s
      | after_final_update sock session \<Rightarrow>
          let s1 = (if ok then s else console_error ''Final DB save error:'' s);
              s2 = s1\<lparr>inMemoryCache := cache_delete sock (inMemoryCache s1)\<rparr>
          in emit_to_room sock (classCode session)
               (student_left sock (studentId session) (studentName session)) s2)"

definition db_done :: "nat \<Rightarrow> bool \<Rightarrow> state \<Rightarrow> state" where
  "db_done i ok s =
     (case map_of (awaiting s) i of
        None \<Rightarrow> s
      | Some k \<Rightarrow> run_continuation k ok (s\<lparr>awaiting := AList.delete i (awaiting s)\<rparr>))"

section \<open>The event loop\<close>

text \<open>
  An input of the server: a client event, the settling of a store promise, or nothing
  (time passes). Each input carries the time at which its turn runs; the timers that are
  due by then fire first, in the order in which they were set.

  \<^verbatim>\<open>teacher_kick_student\<close> (lines 294-311) is left out: it sends \<^verbatim>\<open>force_disconnect\<close> to
  the student's socket and closes it, and the closing runs the student's \<^verbatim>\<open>disconnect\<close>.
\<close>

datatype action =
    JoinClass sid string string string
  | RejoinClass sid string string string
  | TeacherJoinRoom sid string
  | SubscribeToStudent sid string
  | CodeUpdate sid string string
  | GetStudentList sid string
  | TeacherBroadcast sid string string
  | Disconnect sid
  | DbDone nat bool
  | Idle

fun handler :: "action \<Rightarrow> state \<Rightarrow> state" where
  "handler (JoinClass sock name code uuid) s =
     join_class sock name code uuid (Resolved (Class_findOne (classes s) code)) s"
| "handler (RejoinClass sock stid name code) s =
     rejoin_class sock stid name code (Resolved (Class_findOne (classes s) code)) s"
| "handler (TeacherJoinRoom sock code) s = teacher_join_room sock code s"
| "handler (SubscribeToStudent sock target) s = subscribe_to_student sock target s"
| "handler (CodeUpdate sock h c) s = code_update sock h c s"
| "handler (GetStudentList sock code) s = get_student_list sock code s"
| "handler (TeacherBroadcast sock code message) s = teacher_broadcast sock code message s"
| "handler (Disconnect sock) s = disconnect sock s"
| "handler (DbDone i ok) s = db_done i ok s"
| "handler Idle s = s"

definition fire_due :: "nat \<Rightarrow> state \<Rightarrow> state" where
  "fire_due t s =
     (let s1 = foldl (\<lambda>acc x. fire_timeout x acc) s (filter (\<lambda>x. due x \<le> t) (timeouts s))
      in s1\<lparr>now := max (now s1) t\<rparr>)"

definition step :: "state \<Rightarrow> nat \<times> action \<Rightarrow> state" where
  "step s e = handler (snd e) (fire_due (fst e) s)"

definition run :: "(nat \<times> action) list \<Rightarrow> state \<Rightarrow> state" where
  "run evs s = foldl step s evs"

text \<open>
  A disconnect run to its end: the handler up to its \<^verbatim>\<open>await\<close>, then the turn after the
  final update has settled (\<open>ok\<close>: resolved or rejected), nothing in between.
\<close>

definition disconnected :: "sid \<Rightarrow> bool \<Rightarrow> state \<Rightarrow> state" where
  "disconnected sock ok s = db_done (length (storeOps s)) ok (disconnect sock s)"

section \<open>Observations and scenarios\<close>

text \<open>The emits a turn adds to the outbox, and the sockets that receive any of them.\<close>

definition new_emits :: "state \<Rightarrow> state \<Rightarrow> (sid set \<times> payload) list" where
  "new_emits s s' = drop (length (outbox s)) (outbox s')"

definition recipients :: "state \<Rightarrow> state \<Rightarrow> sid set" where
  "recipients s s' = \<Union> (set (map fst (new_emits s s')))"

text \<open>
  Two strings that differ at most in letter case: they have the same characters once the
  letters \<open>A\<close> to \<open>Z\<close> in both are put in lower case.
\<close>

definition toLowerCase_char :: "char \<Rightarrow> char" where
  "toLowerCase_char c =
     (let n = (of_char c :: nat) in if 65 \<le> n \<and> n \<le> 90 then char_of (n + 32) else c)"

definition toLowerCase :: "string \<Rightarrow> string" where
  "toLowerCase str = map toLowerCase_char str"

definition same_ignoring_case :: "string \<Rightarrow> string \<Rightarrow> bool" where
  "same_ignoring_case a b = (toLowerCase a = toLowerCase b)"

text \<open>
  Student ids are unique within a class when no two cache entries carry the same pair of
  class code and student id; \<open>held_elsewhere\<close> tells whether an entry under another socket
  id carries the given pair.
\<close>

definition unique_student_ids :: "(sid \<times> session) list \<Rightarrow> bool" where
  "unique_student_ids c = distinct (map (\<lambda>e. (classCode (snd e), studentId (snd e))) c)"

definition held_elsewhere :: "(sid \<times> session) list \<Rightarrow> sid \<Rightarrow> string \<Rightarrow> string \<Rightarrow> bool" where
  "held_elsewhere c sock code stid =
     list_ex (\<lambda>e. fst e \<noteq> sock \<and> classCode (snd e) = code \<and> studentId (snd e) = stid) c"

text \<open>
  The line a failed store call logs, and the connection whose handler made the call when
  the code after the \<^verbatim>\<open>await\<close> still knows it.
\<close>

definition failure_message :: "continuation \<Rightarrow> string" where
  "failure_message k =
     (case k of
        after_create \<Rightarrow> ''DB save error:''
      | after_rejoin_update \<Rightarrow> ''DB update error:''
      | after_debounced_update sock \<Rightarrow> ''DB update error:''
      | after_final_update sock session \<Rightarrow> ''Final DB save error:'')"

definition originator :: "continuation \<Rightarrow> sid option" where
  "originator k =
     (case k of
        after_create \<Rightarrow> None
      | after_rejoin_update \<Rightarrow> None
      | after_debounced_update sock \<Rightarrow> Some sock
      | after_final_update sock session \<Rightarrow> Some sock)"

text \<open>
  The timers of a socket are consistent when every pending timeout set for the socket is
  the one \<^verbatim>\<open>debounceTimers\<close> holds for it, and no pending handle is still to be issued.
\<close>

definition timers_consistent :: "state \<Rightarrow> sid \<Rightarrow> bool" where
  "timers_consistent s sock =
     (list_all (\<lambda>x. cb_socket x \<noteq> sock \<or> debounceTimers s sock = Some (handle x)) (timeouts s) \<and>
      list_all (\<lambda>x. handle x < nextHandle s) (timeouts s))"

text \<open>
  Two facts about the states the server can be in: no socket id has two cache entries, and
  every awaited store call is one that has been made.
\<close>

definition well_formed :: "state \<Rightarrow> bool" where
  "well_formed s =
     (distinct (map fst (inMemoryCache s)) \<and>
      list_all (\<lambda>e. fst e < length (storeOps s)) (awaiting s))"

text \<open>
  The live sessions of a class: the cache entries whose class code the directory resolves
  to the class.
\<close>

definition sessions_of_class ::
  "class_doc list \<Rightarrow> (sid \<times> session) list \<Rightarrow> class_doc \<Rightarrow> (sid \<times> session) list" where
  "sessions_of_class coll c d =
     filter (\<lambda>e. Class_findOne coll (classCode (snd e)) = Some d) c"

text \<open>
  Which inputs can put a socket into a room (a join, a rejoin or a teacher's join under
  that room name, a subscription to the student of that room), and which can take it out
  of a room (its next subscription, its disconnect).
\<close>

definition may_join :: "sid \<Rightarrow> string \<Rightarrow> action \<Rightarrow> bool" where
  "may_join v r a =
     (case a of
        JoinClass sock name code uuid \<Rightarrow> sock = v \<and> code = r
      | RejoinClass sock stid name code \<Rightarrow> sock = v \<and> code = r
      | TeacherJoinRoom sock code \<Rightarrow> sock = v \<and> code = r
      | SubscribeToStudent sock target \<Rightarrow> sock = v \<and> student_room target = r
      | _ \<Rightarrow> False)"

definition may_leave :: "sid \<Rightarrow> action \<Rightarrow> bool" where
  "may_leave v a =
     (case a of
        SubscribeToStudent sock target \<Rightarrow> sock = v
      | Disconnect sock \<Rightarrow> sock = v
      | _ \<Rightarrow> False)"

text \<open>
  The deliveries in a stretch of the outbox that hand a \<^verbatim>\<open>student_code_update\<close> of student
  \<open>i\<close> to socket \<open>v\<close>.
\<close>

definition is_update_from :: "sid \<Rightarrow> payload \<Rightarrow> bool" where
  "is_update_from i p = (case p of student_code_update j h c t \<Rightarrow> j = i | _ \<Rightarrow> False)"

definition stale_deliveries :: "sid \<Rightarrow> sid \<Rightarrow> (sid set \<times> payload) list \<Rightarrow> (sid set \<times> payload) list" where
  "stale_deliveries v i xs = filter (\<lambda>e. v \<in> fst e \<and> is_update_from i (snd e)) xs"

text \<open>One active class, as the \<^verbatim>\<open>Class\<close> collection holds it.\<close>

definition demo_class :: class_doc where
  "demo_class = \<lparr>cls_classCode = ''AB12CD'', cls_isActive = True\<rparr>"

definition demo_classes :: "class_doc list" where
  "demo_classes = [\<lparr>cls_classCode = ''AB12CD'', cls_isActive = True\<rparr>]"

text \<open>
  A student joins, a teacher joins the room, the student disconnects and the final update
  settles: the session of \<open>s1\<close> is gone from the cache.
\<close>

definition after_student_left :: state where
  "after_student_left =
     run [(0, JoinClass ''s1'' ''Ann'' ''AB12CD'' ''u1''), (5, DbDone 0 True),
          (100, TeacherJoinRoom ''t1'' ''AB12CD''),
          (2000, Disconnect ''s1''), (2010, DbDone 1 True)] (init demo_classes)"

text \<open>Two students have joined the class.\<close>

definition two_students :: state where
  "two_students =
     run [(0, JoinClass ''s1'' ''Ann'' ''AB12CD'' ''u1''), (5, DbDone 0 True),
          (10, JoinClass ''s2'' ''Bob'' ''AB12CD'' ''u2''), (15, DbDone 1 True)]
       (init demo_classes)"

text \<open>The teacher \<open>t1\<close> watches \<open>s1\<close> and then switches to \<open>s2\<close>.\<close>

definition switched :: state where
  "switched = subscribe_to_student ''t1'' ''s2'' (subscribe_to_student ''t1'' ''s1'' two_students)"

text \<open>After the switch both students type.\<close>

definition later_updates :: "(nat \<times> action) list" where
  "later_updates = [(20, CodeUpdate ''s1'' ''<h1>'' ''''), (30, CodeUpdate ''s2'' ''<h2>'' '''')]"

text \<open>
  A class at its ceiling: sixty students have joined, on the sockets \<open>00\<close> to \<open>59\<close>.
\<close>

definition sixty_ids :: "string list" where
  "sixty_ids = concat (map (\<lambda>a. map (\<lambda>b. [a, b]) ''0123456789'') ''012345'')"

definition seat :: "sid \<Rightarrow> sid \<times> session" where
  "seat i = (i, \<lparr>studentId = ''u'' @ i, studentName = ''N'', classCode = ''AB12CD'',
               socketId = i, html = [], css = [], lastUpdate = 0\<rparr>)"

definition sixty_joins :: "(nat \<times> action) list" where
  "sixty_joins = map (\<lambda>i. (0, JoinClass i ''N'' ''AB12CD'' (''u'' @ i))) sixty_ids"

definition full_class :: state where
  "full_class = run sixty_joins (init demo_classes)"

text \<open>The state after the sockets \<open>ids\<close> have joined the class at time 0, one after another.\<close>

definition seated :: "sid list \<Rightarrow> state \<Rightarrow> bool" where
  "seated ids s =
     (classes s = demo_classes \<and> now s = 0 \<and> timeouts s = [] \<and>
      inMemoryCache s = map seat ids)"

text \<open>The two students and a teacher in the room of the class.\<close>

definition with_teacher :: state where
  "with_teacher = teacher_join_room ''t1'' ''AB12CD'' two_students"

text \<open>A third student joins and spells the code of the class in lower case.\<close>

definition other_spelling :: state where
  "other_spelling = handler (JoinClass ''s3'' ''Cy'' ''ab12cd'' ''u3'') with_teacher"

text \<open>
  A student reconnects on a new socket \<open>s2\<close> and rejoins with its student id while the
  server has not yet seen the old socket \<open>s1\<close> disconnect.
\<close>

definition reconnect_early :: state where
  "reconnect_early =
     run [(0, JoinClass ''s1'' ''Ann'' ''AB12CD'' ''u1''), (5, DbDone 0 True),
          (9000, RejoinClass ''s2'' ''u1'' ''Ann'' ''AB12CD'')] (init demo_classes)"

text \<open>The debounce timer of \<open>s1\<close> has fired and its update is with the store.\<close>

definition debounced_pending :: state where
  "debounced_pending =
     run [(0, JoinClass ''s1'' ''Ann'' ''AB12CD'' ''u1''), (5, DbDone 0 True),
          (1000, CodeUpdate ''s1'' ''<p>'' ''p{}''), (4000, Idle)] (init demo_classes)"

text \<open>
  A student types \<open>d0\<close> and pauses; the timer fires at 4000 and its update is with the
  store; the student types \<open>d1\<close> at 4001, while the update is awaited; the update resolves
  at 4002. Then either the student types \<open>d2\<close> at 4003, or the student disconnects at 5000.
\<close>

definition race_prefix :: "(nat \<times> action) list" where
  "race_prefix =
     [(0, JoinClass ''s1'' ''Ann'' ''AB12CD'' ''u1''), (5, DbDone 0 True),
      (1000, CodeUpdate ''s1'' ''d0'' ''''),
      (4001, CodeUpdate ''s1'' ''d1'' ''''),
      (4002, DbDone 1 True)]"

definition race_two_updates :: "(nat \<times> action) list" where
  "race_two_updates = race_prefix @ [(4003, CodeUpdate ''s1'' ''d2'' ''''), (10000, Idle)]"

definition race_disconnect :: "(nat \<times> action) list" where
  "race_disconnect = race_prefix @ [(5000, Disconnect ''s1''), (5005, DbDone 2 True), (10000, Idle)]"

text \<open>
  A directory with the class \<open>AB12FF\<close>, and a request that spells its code as \<open>ab12\<close>
  followed by the ligature U+FB00.
\<close>

definition ff_classes :: "class_doc list" where
  "ff_classes = [\<lparr>cls_classCode = ''AB12FF'', cls_isActive = True\<rparr>]"

definition ligature_request :: string where
  "ligature_request = ''ab12'' @ ligature_ff"

section \<open>Properties\<close>

lemmas model_defs =
  run_def step_def fire_due_def init_def join_class_def rejoin_class_def Class_findOne_def
  is_ascii_def toUpperCase_ascii_def count_in_class_def cache_values_def
  MAX_STUDENTS_PER_CLASS_def cache_set_def cache_get_def cache_delete_def db_start_def
  socket_join_def socket_leave_def emit_to_room_def emit_self_def code_update_def
  student_room_def clearTimeout_def setTimeout_def DEBOUNCE_DELAY_def fire_timeout_def
  db_done_def run_continuation_def console_error_def subscribe_to_student_def
  teacher_join_room_def teacher_broadcast_def get_student_list_def disconnect_def
  clear_debounce_def   socket_closed_def new_emits_def recipients_def demo_classes_def Let_def

lemma eq_char_of_iff: "c = char_of (n::nat) \<longleftrightarrow> take_bit 8 n = of_char c"
  by (metis char_of_eq_iff)

lemmas case_defs =
  is_ascii_def toUpperCase_ascii_def ligature_ff_def toLowerCase_def toLowerCase_char_def
  same_ignoring_case_def char_of_eq_iff eq_char_of_iff

subsection \<open>The cache\<close>

lemma cache_get_set: "cache_get (cache_set k v c) k = Some v"
  by (simp add: cache_get_def cache_set_def update_conv')

lemma cache_get_set_other: "k' \<noteq> k \<Longrightarrow> cache_get (cache_set k v c) k' = cache_get c k'"
  by (simp add: cache_get_def cache_set_def update_conv')

lemma distinct_cache_set: "distinct (map fst c) \<Longrightarrow> distinct (map fst (cache_set k v c))"
  by (simp add: cache_set_def distinct_update)

lemma set_update_subset: "set (AList.update k v c) \<subseteq> insert (k, v) (set c)"
  by (induction c) auto

lemma update_fresh_key: "k \<notin> fst ` set c \<Longrightarrow> AList.update k v c = c @ [(k, v)]"
  by (induction c) auto

subsection \<open>Accepted and refused joins\<close>

lemma join_class_accept:
  assumes "cls_isActive d" and "count_in_class (inMemoryCache s) code < MAX_STUDENTS_PER_CLASS"
  shows "join_class sock name code uuid (Resolved (Some d)) s =
     s\<lparr>inMemoryCache := cache_set sock
          \<lparr> studentId = uuid, studentName = name, classCode = code, socketId = sock,
            html = '''', css = '''', lastUpdate = now s \<rparr> (inMemoryCache s),
        storeOps := storeOps s @ [CodeSession_create uuid name code sock (now s + 24 * 60 * 60 * 1000)],
        awaiting := awaiting s @ [(length (storeOps s), after_create)],
        rooms := (rooms s)(code := insert sock (rooms s code)),
        outbox := outbox s @ [(insert sock (rooms s code) - {sock}, student_joined name sock uuid (now s) False),
                              ({sock}, join_success uuid sock True)]\<rparr>"
  using assms
  by (simp add: join_class_def Let_def db_start_def socket_join_def emit_to_room_def emit_self_def)

lemma rejoin_class_accept:
  assumes "cls_isActive d" and "count_in_class (inMemoryCache s) code < MAX_STUDENTS_PER_CLASS"
  shows "rejoin_class sock stid name code (Resolved (Some d)) s =
     s\<lparr>inMemoryCache := cache_set sock
          \<lparr> studentId = stid, studentName = name, classCode = code, socketId = sock,
            html = '''', css = '''', lastUpdate = now s \<rparr> (inMemoryCache s),
        storeOps := storeOps s @ [CodeSession_upsertByStudentId stid sock name (now s + 24 * 60 * 60 * 1000)],
        awaiting := awaiting s @ [(length (storeOps s), after_rejoin_update)],
        rooms := (rooms s)(code := insert sock (rooms s code)),
        outbox := outbox s @ [(insert sock (rooms s code) - {sock}, student_joined name sock stid (now s) True),
                              ({sock}, rejoin_success stid sock)]\<rparr>"
  using assms
  by (simp add: rejoin_class_def Let_def db_start_def socket_join_def emit_to_room_def emit_self_def)

lemma join_class_full:
  assumes "cls_isActive d" and "\<not> count_in_class (inMemoryCache s) code < MAX_STUDENTS_PER_CLASS"
  shows "join_class sock name code uuid (Resolved (Some d)) s =
           emit_self sock (join_error ''Class is full (maximum 60 students)'') s"
  using assms by (simp add: join_class_def)

lemma rejoin_class_full:
  assumes "cls_isActive d" and "\<not> count_in_class (inMemoryCache s) code < MAX_STUDENTS_PER_CLASS"
  shows "rejoin_class sock stid name code (Resolved (Some d)) s =
           emit_self sock (rejoin_error ''Class is full (maximum 60 students)'' False) s"
  using assms by (simp add: rejoin_class_def)

lemma demo_lookup:
  "Class_findOne demo_classes ''AB12CD'' = Some \<lparr>cls_classCode = ''AB12CD'', cls_isActive = True\<rparr>"
  by (simp add: demo_classes_def Class_findOne_def is_ascii_def toUpperCase_ascii_def)

subsection \<open>States the server can reach\<close>

lemma well_formed_init: "well_formed (init cs)"
  by (simp add: well_formed_def init_def)

lemma well_formed_fresh:
  assumes "well_formed s"
  shows "map_of (awaiting s) (length (storeOps s)) = None"
proof -
  from assms have "length (storeOps s) \<notin> fst ` set (awaiting s)"
    by (auto simp: well_formed_def list_all_iff)
  then show ?thesis by (simp add: map_of_eq_None_iff)
qed

lemma well_formed_db_start: "well_formed s \<Longrightarrow> well_formed (db_start opn k s)"
  by (auto simp: well_formed_def db_start_def list_all_iff)

lemma well_formed_frame:
  assumes "well_formed s" and "storeOps s' = storeOps s" and "awaiting s' = awaiting s"
    and "inMemoryCache s' = inMemoryCache s"
  shows "well_formed s'"
  using assms by (simp add: well_formed_def)

lemma well_formed_cache_set:
  "well_formed s \<Longrightarrow> well_formed (s\<lparr>inMemoryCache := cache_set k v (inMemoryCache s)\<rparr>)"
  by (simp add: well_formed_def distinct_cache_set)

lemma well_formed_cache_delete:
  "well_formed s \<Longrightarrow> well_formed (s\<lparr>inMemoryCache := cache_delete k (inMemoryCache s)\<rparr>)"
  by (simp add: well_formed_def cache_delete_def distinct_delete)

lemma well_formed_emit_self: "well_formed s \<Longrightarrow> well_formed (emit_self sock p s)"
  by (simp add: well_formed_def emit_self_def)

lemma well_formed_emit_to_room: "well_formed s \<Longrightarrow> well_formed (emit_to_room sock r p s)"
  by (simp add: well_formed_def emit_to_room_def)

lemma well_formed_socket_join: "well_formed s \<Longrightarrow> well_formed (socket_join sock r s)"
  by (simp add: well_formed_def socket_join_def)

lemma well_formed_socket_leave: "well_formed s \<Longrightarrow> well_formed (socket_leave sock r s)"
  by (simp add: well_formed_def socket_leave_def)

lemma well_formed_console: "well_formed s \<Longrightarrow> well_formed (console_error m s)"
  by (simp add: well_formed_def console_error_def)

lemmas well_formed_intros =
  well_formed_db_start well_formed_cache_set well_formed_cache_delete well_formed_emit_self
  well_formed_emit_to_room well_formed_socket_join well_formed_socket_leave well_formed_console

lemma well_formed_join_class: "well_formed s \<Longrightarrow> well_formed (join_class sock n c u res s)"
  by (auto simp: join_class_def Let_def intro!: well_formed_intros split: awaited.splits option.splits)

lemma well_formed_rejoin_class: "well_formed s \<Longrightarrow> well_formed (rejoin_class sock i n c res s)"
  by (auto simp: rejoin_class_def Let_def intro!: well_formed_intros split: awaited.splits option.splits)

lemma well_formed_subscribe: "well_formed s \<Longrightarrow> well_formed (subscribe_to_student sock i s)"
  by (auto simp: subscribe_to_student_def Let_def well_formed_def emit_self_def socket_join_def
      socket_leave_def split: option.splits)

lemma well_formed_code_update: "well_formed s \<Longrightarrow> well_formed (code_update sock h c s)"
  by (auto simp: code_update_def Let_def well_formed_def emit_to_room_def setTimeout_def
      clearTimeout_def distinct_cache_set split: option.splits)

lemma well_formed_disconnect: "well_formed s \<Longrightarrow> well_formed (disconnect sock s)"
  by (auto simp: disconnect_def Let_def well_formed_def db_start_def clear_debounce_def
      socket_closed_def clearTimeout_def list_all_iff split: option.splits)

lemma well_formed_run_continuation:
  "well_formed s \<Longrightarrow> well_formed (run_continuation k ok s)"
  by (cases k)
     (auto simp: run_continuation_def Let_def well_formed_def console_error_def emit_to_room_def
        cache_delete_def distinct_delete)

lemma well_formed_db_done: "well_formed s \<Longrightarrow> well_formed (db_done i ok s)"
proof (cases "map_of (awaiting s) i")
  case None
  then show "well_formed s \<Longrightarrow> ?thesis" by (simp add: db_done_def)
next
  case (Some k)
  assume w: "well_formed s"
  then have "well_formed (s\<lparr>awaiting := AList.delete i (awaiting s)\<rparr>)"
    by (auto simp: well_formed_def list_all_iff AList.delete_eq)
  then show ?thesis
    using Some by (simp add: db_done_def well_formed_run_continuation)
qed

lemma well_formed_handler: "well_formed s \<Longrightarrow> well_formed (handler a s)"
  by (cases a)
     (simp_all add: well_formed_join_class well_formed_rejoin_class well_formed_subscribe
        well_formed_code_update well_formed_disconnect well_formed_db_done
        teacher_join_room_def teacher_broadcast_def get_student_list_def well_formed_intros)

lemma well_formed_fire_timeout: "well_formed s \<Longrightarrow> well_formed (fire_timeout x s)"
  by (auto simp: fire_timeout_def Let_def well_formed_def db_start_def list_all_iff)

lemma well_formed_fold_fire:
  "well_formed s \<Longrightarrow> well_formed (foldl (\<lambda>acc x. fire_timeout x acc) s xs)"
  by (induction xs arbitrary: s) (simp_all add: well_formed_fire_timeout)

lemma well_formed_fire_due: "well_formed s \<Longrightarrow> well_formed (fire_due t s)"
  using well_formed_fold_fire [of s "filter (\<lambda>x. due x \<le> t) (timeouts s)"]
  by (simp add: fire_due_def Let_def well_formed_def)

lemma well_formed_step: "well_formed s \<Longrightarrow> well_formed (step s e)"
  by (simp add: step_def well_formed_handler well_formed_fire_due)

lemma well_formed_run: "well_formed s \<Longrightarrow> well_formed (run evs s)"
  unfolding run_def by (induction evs arbitrary: s) (simp_all add: well_formed_step)

lemma reachable_well_formed: "well_formed (run evs (init cs))"
  by (rule well_formed_run [OF well_formed_init])

text \<open>Sixty joins fill the class: the cache then holds one session per socket.\<close>

lemma count_seats: "count_in_class (map seat ids) ''AB12CD'' = length ids"
  by (simp add: count_in_class_def cache_values_def seat_def o_def)

lemma fire_due_idle: "timeouts s = [] \<Longrightarrow> fire_due t s = s\<lparr>now := max (now s) t\<rparr>"
  by (simp add: fire_due_def)

lemma seated_step:
  assumes "seated ids s" and "i \<notin> set ids" and "length ids < 60"
  shows "seated (ids @ [i]) (step s (0, JoinClass i ''N'' ''AB12CD'' (''u'' @ i)))"
proof -
  from assms(1) have f: "fire_due 0 s = s"
    by (simp add: seated_def fire_due_idle)
  have act: "cls_isActive \<lparr>cls_classCode = ''AB12CD'', cls_isActive = True\<rparr>" by simp
  from assms(1,3) have lt: "count_in_class (inMemoryCache s) ''AB12CD'' < MAX_STUDENTS_PER_CLASS"
    by (simp add: seated_def count_seats MAX_STUDENTS_PER_CLASS_def)
  from assms(2) have fresh: "i \<notin> fst ` set (map seat ids)"
    by (auto simp: seat_def)
  have "step s (0, JoinClass i ''N'' ''AB12CD'' (''u'' @ i)) =
      join_class i ''N'' ''AB12CD'' (''u'' @ i)
        (Resolved (Some \<lparr>cls_classCode = ''AB12CD'', cls_isActive = True\<rparr>)) s"
    using assms(1) by (simp add: step_def f seated_def demo_lookup)
  then show ?thesis
    using assms(1) update_fresh_key [OF fresh]
    by (simp add: join_class_accept [OF act lt] seated_def cache_set_def seat_def)
qed

lemma seated_run:
  "distinct ids \<Longrightarrow> length ids \<le> 60 \<Longrightarrow>
   seated ids (run (map (\<lambda>i. (0, JoinClass i ''N'' ''AB12CD'' (''u'' @ i))) ids) (init demo_classes))"
proof (induction ids rule: rev_induct)
  case Nil
  then show ?case by (simp add: run_def seated_def init_def)
next
  case (snoc i ids)
  then have "seated ids (run (map (\<lambda>i. (0, JoinClass i ''N'' ''AB12CD'' (''u'' @ i))) ids)
      (init demo_classes))" by simp
  from seated_step [OF this, of i] snoc.prems show ?case
    by (simp add: run_def)
qed

lemma length_sixty_ids: "length sixty_ids = 60"
  by (simp add: sixty_ids_def)

lemma distinct_sixty_ids: "distinct sixty_ids"
  by (simp add: sixty_ids_def)

subsection \<open>Subscriptions and routing\<close>

lemma student_room_inject: "student_room a = student_room b \<longleftrightarrow> a = b"
  by (simp add: student_room_def)

lemma subscribe_cache: "inMemoryCache (subscribe_to_student v t s) = inMemoryCache s"
  by (simp add: subscribe_to_student_def Let_def socket_join_def socket_leave_def emit_self_def
      split: option.splits)

lemma subscribe_cur: "currentSubscription (subscribe_to_student v t s) v = Some t"
  by (simp add: subscribe_to_student_def Let_def socket_join_def socket_leave_def emit_self_def
      split: option.splits)

lemma subscribe_in_room: "v \<in> rooms (subscribe_to_student v t s) (student_room t)"
  by (simp add: subscribe_to_student_def Let_def socket_join_def socket_leave_def emit_self_def
      split: option.splits)

lemma subscribe_leaves_room:
  "currentSubscription s v = Some t \<Longrightarrow> t \<noteq> [] \<Longrightarrow> t \<noteq> t2 \<Longrightarrow>
   v \<notin> rooms (subscribe_to_student v t2 s) (student_room t)"
  by (simp add: subscribe_to_student_def Let_def socket_join_def socket_leave_def emit_self_def
      student_room_inject split: option.splits)

lemma code_update_recipients:
  "recipients s (code_update sock h c s) \<subseteq> rooms s (student_room sock) - {sock}"
  by (auto simp: code_update_def recipients_def new_emits_def Let_def emit_to_room_def
      setTimeout_def clearTimeout_def split: option.splits)

lemma code_update_new_emits:
  "cache_get (inMemoryCache s) sock = Some ss \<Longrightarrow>
   new_emits s (code_update sock h c s) =
     [(rooms s (student_room sock) - {sock}, student_code_update sock h c (now s))]"
  by (auto simp: code_update_def new_emits_def Let_def emit_to_room_def setTimeout_def
      clearTimeout_def split: option.splits)

lemma fire_timeout_rooms: "rooms (fire_timeout x s) = rooms s"
  and fire_timeout_outbox: "outbox (fire_timeout x s) = outbox s"
  by (simp_all add: fire_timeout_def Let_def db_start_def)

lemma fold_fire_rooms:
  "rooms (foldl (\<lambda>acc x. fire_timeout x acc) s xs) = rooms s \<and>
   outbox (foldl (\<lambda>acc x. fire_timeout x acc) s xs) = outbox s"
  by (induction xs arbitrary: s) (simp_all add: fire_timeout_rooms fire_timeout_outbox)

lemma fire_due_rooms: "rooms (fire_due t s) = rooms s"
  and fire_due_outbox: "outbox (fire_due t s) = outbox s"
  by (simp_all add: fire_due_def Let_def fold_fire_rooms)

lemma handler_keeps_out:
  assumes "v \<notin> rooms s r" and "\<not> may_join v r a"
  shows "v \<notin> rooms (handler a s) r"
proof (cases a)
  case (JoinClass sock name code uuid)
  with assms show ?thesis
    by (auto simp: may_join_def join_class_def Let_def emit_self_def emit_to_room_def
        socket_join_def db_start_def console_error_def split: option.splits if_splits)
next
  case (RejoinClass sock stid name code)
  with assms show ?thesis
    by (auto simp: may_join_def rejoin_class_def Let_def emit_self_def emit_to_room_def
        socket_join_def db_start_def console_error_def split: option.splits if_splits)
next
  case (TeacherJoinRoom sock code)
  with assms show ?thesis
    by (auto simp: may_join_def teacher_join_room_def socket_join_def split: if_splits)
next
  case (SubscribeToStudent sock target)
  with assms show ?thesis
    by (auto simp: may_join_def subscribe_to_student_def Let_def emit_self_def
        socket_join_def socket_leave_def split: option.splits if_splits)
next
  case (CodeUpdate sock h c)
  with assms show ?thesis
    by (auto simp: code_update_def Let_def emit_to_room_def setTimeout_def clearTimeout_def
        split: option.splits)
next
  case (GetStudentList sock code)
  with assms show ?thesis by (simp add: get_student_list_def emit_self_def)
next
  case (TeacherBroadcast sock code message)
  with assms show ?thesis by (simp add: teacher_broadcast_def emit_to_room_def)
next
  case (Disconnect sock)
  with assms show ?thesis
    by (auto simp: disconnect_def Let_def socket_closed_def clear_debounce_def clearTimeout_def
        db_start_def split: option.splits)
next
  case (DbDone i ok)
  with assms show ?thesis
    by (auto simp: db_done_def run_continuation_def Let_def console_error_def emit_to_room_def
        split: option.splits continuation.splits)
next
  case Idle
  with assms show ?thesis by simp
qed

lemma handler_keeps_in:
  assumes "v \<in> rooms s r" and "\<not> may_leave v a"
  shows "v \<in> rooms (handler a s) r"
proof (cases a)
  case (JoinClass sock name code uuid)
  with assms show ?thesis
    by (auto simp: join_class_def Let_def emit_self_def emit_to_room_def
        socket_join_def db_start_def console_error_def split: awaited.splits option.splits)
next
  case (RejoinClass sock stid name code)
  with assms show ?thesis
    by (auto simp: rejoin_class_def Let_def emit_self_def emit_to_room_def
        socket_join_def db_start_def console_error_def split: awaited.splits option.splits)
next
  case (TeacherJoinRoom sock code)
  with assms show ?thesis
    by (auto simp: teacher_join_room_def socket_join_def)
next
  case (SubscribeToStudent sock target)
  with assms show ?thesis
    by (auto simp: may_leave_def subscribe_to_student_def Let_def emit_self_def
        socket_join_def socket_leave_def split: option.splits)
next
  case (CodeUpdate sock h c)
  with assms show ?thesis
    by (auto simp: code_update_def Let_def emit_to_room_def setTimeout_def clearTimeout_def
        split: option.splits)
next
  case (GetStudentList sock code)
  with assms show ?thesis by (simp add: get_student_list_def emit_self_def)
next
  case (TeacherBroadcast sock code message)
  with assms show ?thesis by (simp add: teacher_broadcast_def emit_to_room_def)
next
  case (Disconnect sock)
  with assms show ?thesis
    by (auto simp: may_leave_def disconnect_def Let_def socket_closed_def clear_debounce_def
        clearTimeout_def db_start_def split: option.splits)
next
  case (DbDone i ok)
  with assms show ?thesis
    by (auto simp: db_done_def run_continuation_def Let_def console_error_def emit_to_room_def
        split: option.splits continuation.splits)
next
  case Idle
  with assms show ?thesis by simp
qed

lemma handler_no_stale:
  assumes "v \<notin> rooms s (student_room i)"
  shows "\<exists>xs. outbox (handler a s) = outbox s @ xs \<and> stale_deliveries v i xs = []"
proof (cases a)
  case (JoinClass sock name code uuid)
  then show ?thesis
    by (auto simp: join_class_def Let_def emit_self_def emit_to_room_def socket_join_def
        db_start_def console_error_def stale_deliveries_def is_update_from_def
        split: option.splits)
next
  case (RejoinClass sock stid name code)
  then show ?thesis
    by (auto simp: rejoin_class_def Let_def emit_self_def emit_to_room_def socket_join_def
        db_start_def console_error_def stale_deliveries_def is_update_from_def
        split: option.splits)
next
  case (TeacherJoinRoom sock code)
  then show ?thesis
    by (simp add: teacher_join_room_def socket_join_def stale_deliveries_def)
next
  case (SubscribeToStudent sock target)
  then show ?thesis
    by (auto simp: subscribe_to_student_def Let_def emit_self_def socket_join_def
        socket_leave_def stale_deliveries_def is_update_from_def split: option.splits)
next
  case (CodeUpdate sock h c)
  with assms show ?thesis
    by (auto simp: code_update_def Let_def emit_to_room_def setTimeout_def clearTimeout_def
        stale_deliveries_def is_update_from_def split: option.splits)
next
  case (GetStudentList sock code)
  then show ?thesis
    by (simp add: get_student_list_def emit_self_def stale_deliveries_def is_update_from_def)
next
  case (TeacherBroadcast sock code message)
  then show ?thesis
    by (simp add: teacher_broadcast_def emit_to_room_def stale_deliveries_def is_update_from_def)
next
  case (Disconnect sock)
  then show ?thesis
    by (auto simp: disconnect_def Let_def socket_closed_def clear_debounce_def clearTimeout_def
        db_start_def stale_deliveries_def split: option.splits)
next
  case (DbDone j ok)
  then show ?thesis
    by (auto simp: db_done_def run_continuation_def Let_def console_error_def emit_to_room_def
        stale_deliveries_def is_update_from_def split: option.splits continuation.splits)
next
  case Idle
  then show ?thesis by (simp add: stale_deliveries_def)
qed

lemma run_snoc: "run (evs @ [e]) s = step (run evs s) e"
  by (simp add: run_def)

lemma run_keeps_out:
  assumes "v \<notin> rooms s (student_room i)"
    and "list_all (\<lambda>e. \<not> may_join v (student_room i) (snd e)) evs"
  shows "v \<notin> rooms (run evs s) (student_room i) \<and>
         (\<exists>xs. outbox (run evs s) = outbox s @ xs \<and> stale_deliveries v i xs = [])"
  using assms(2)
proof (induction evs rule: rev_induct)
  case Nil
  with assms(1) show ?case by (simp add: run_def stale_deliveries_def)
next
  case (snoc e evs)
  let ?s = "run evs s" and ?f = "fire_due (fst e) (run evs s)"
  from snoc have out: "v \<notin> rooms ?s (student_room i)"
    and box: "\<exists>xs. outbox ?s = outbox s @ xs \<and> stale_deliveries v i xs = []"
    and nj: "\<not> may_join v (student_room i) (snd e)"
    by simp_all
  from out have out': "v \<notin> rooms ?f (student_room i)" by (simp add: fire_due_rooms)
  from box obtain xs where xs: "outbox ?s = outbox s @ xs" "stale_deliveries v i xs = []"
    by blast
  from handler_no_stale [OF out', of "snd e"] obtain ys where
    ys: "outbox (handler (snd e) ?f) = outbox ?f @ ys" "stale_deliveries v i ys = []"
    by blast
  have "outbox (run (evs @ [e]) s) = outbox s @ (xs @ ys)"
    by (simp add: run_snoc step_def ys(1) fire_due_outbox xs(1))
  moreover have "stale_deliveries v i (xs @ ys) = []"
    using xs(2) ys(2) by (simp add: stale_deliveries_def)
  moreover have "v \<notin> rooms (run (evs @ [e]) s) (student_room i)"
    using handler_keeps_out [OF out' nj] by (simp add: run_snoc step_def)
  ultimately show ?case by blast
qed

lemma run_keeps_in:
  assumes "v \<in> rooms s r" and "list_all (\<lambda>e. \<not> may_leave v (snd e)) evs"
  shows "v \<in> rooms (run evs s) r"
  using assms(2)
proof (induction evs rule: rev_induct)
  case Nil
  with assms(1) show ?case by (simp add: run_def)
next
  case (snoc e evs)
  then have "v \<in> rooms (fire_due (fst e) (run evs s)) r" by (simp add: fire_due_rooms)
  with snoc.prems have "v \<in> rooms (handler (snd e) (fire_due (fst e) (run evs s))) r"
    by (intro handler_keeps_in) simp_all
  then show ?case by (simp add: run_snoc step_def)
qed

text \<open>
  C4. A viewer subscribes to \<open>target\<close> and then to another student \<open>target2\<close> (socket ids
  are never empty, and the viewer is not the student it watches). Right after the switch
  the viewer is out of the room of \<open>target\<close> and in the room of \<open>target2\<close>. Whatever the
  server receives afterwards, as long as the viewer itself does not enter the room of
  \<open>target\<close> again, the viewer stays out of that room and no \<^verbatim>\<open>student_code_update\<close> of
  \<open>target\<close> is ever delivered to it: each update goes to the members of the sender's room
  at the moment of the emit. As long as the viewer neither subscribes anew nor
  disconnects, a \<^verbatim>\<open>code_update\<close> of \<open>target2\<close> (a joined student) is one
  \<^verbatim>\<open>student_code_update\<close> delivered to the members of the room of \<open>target2\<close>, the viewer
  among them.
\<close>

theorem switch_subscription_routing:
  assumes "target \<noteq> []" and "target \<noteq> target2" and "viewer \<noteq> target2"
    and "s2 = subscribe_to_student viewer target2 (subscribe_to_student viewer target s)"
    and "s' = run evs s2"
    and "list_all (\<lambda>e. \<not> may_join viewer (student_room target) (snd e)) evs"
  shows "viewer \<notin> rooms s2 (student_room target) \<and>
         viewer \<in> rooms s2 (student_room target2) \<and>
         viewer \<notin> rooms s' (student_room target) \<and>
         stale_deliveries viewer target (new_emits s2 s') = [] \<and>
         viewer \<notin> recipients s' (code_update target h c s') \<and>
         (list_all (\<lambda>e. \<not> may_leave viewer (snd e)) evs \<and>
          cache_get (inMemoryCache s') target2 = Some ss \<longrightarrow>
            new_emits s' (code_update target2 h c s') =
              [(rooms s' (student_room target2) - {target2},
                student_code_update target2 h c (now s'))] \<and>
            viewer \<in> rooms s' (student_room target2) - {target2})"
proof -
  let ?s1 = "subscribe_to_student viewer target s"
  have out: "viewer \<notin> rooms s2 (student_room target)"
    unfolding assms(4) using subscribe_cur [of viewer target s] assms(1,2)
    by (rule subscribe_leaves_room)
  have inn: "viewer \<in> rooms s2 (student_room target2)"
    unfolding assms(4) by (rule subscribe_in_room)
  from run_keeps_out [OF out assms(6)] obtain xs where
    out': "viewer \<notin> rooms s' (student_room target)"
    and xs: "outbox s' = outbox s2 @ xs" "stale_deliveries viewer target xs = []"
    unfolding assms(5) by blast
  from xs have stale: "stale_deliveries viewer target (new_emits s2 s') = []"
    by (simp add: new_emits_def)
  from out' code_update_recipients [of s' target h c]
  have a: "viewer \<notin> recipients s' (code_update target h c s')" by blast
  have b: "new_emits s' (code_update target2 h c s') =
              [(rooms s' (student_room target2) - {target2},
                student_code_update target2 h c (now s'))] \<and>
            viewer \<in> rooms s' (student_room target2) - {target2}"
    if "list_all (\<lambda>e. \<not> may_leave viewer (snd e)) evs"
      and "cache_get (inMemoryCache s') target2 = Some ss"
  proof -
    from run_keeps_in [OF inn that(1)] have "viewer \<in> rooms s' (student_room target2)"
      by (simp add: assms(5))
    with assms(3) code_update_new_emits [OF that(2)] show ?thesis by simp
  qed
  from out inn out' stale a b show ?thesis by blast
qed

lemma two_students_cache:
  "inMemoryCache two_students =
     [(''s1'', \<lparr>studentId = ''u1'', studentName = ''Ann'', classCode = ''AB12CD'',
               socketId = ''s1'', html = [], css = [], lastUpdate = 0\<rparr>),
      (''s2'', \<lparr>studentId = ''u2'', studentName = ''Bob'', classCode = ''AB12CD'',
               socketId = ''s2'', html = [], css = [], lastUpdate = 10\<rparr>)]"
  by (simp add: two_students_def model_defs)

lemma switched_rooms:
  "rooms switched (student_room ''s1'') = {}" "rooms switched (student_room ''s2'') = {''t1''}"
  by (simp_all add: switched_def two_students_def model_defs)

lemma later_updates_allowed:
  "list_all (\<lambda>e. \<not> may_join ''t1'' (student_room ''s1'') (snd e)) later_updates"
  "list_all (\<lambda>e. \<not> may_leave ''t1'' (snd e)) later_updates"
  by (simp_all add: later_updates_def may_join_def may_leave_def)

lemma later_updates_cache:
  "cache_get (inMemoryCache (run later_updates switched)) ''s2'' =
     Some \<lparr>studentId = ''u2'', studentName = ''Bob'', classCode = ''AB12CD'',
            socketId = ''s2'', html = ''<h2>'', css = [], lastUpdate = 30\<rparr>"
  by (simp add: later_updates_def switched_def two_students_def model_defs)

lemma later_updates_emits:
  "new_emits switched (run later_updates switched) =
     [({}, student_code_update ''s1'' ''<h1>'' '''' 20),
      ({''t1''}, student_code_update ''s2'' ''<h2>'' '''' 30)]"
  by (simp add: later_updates_def switched_def two_students_def model_defs)

theorem switch_subscription_routing_witness:
  "''s1'' \<noteq> [] \<and> ''s1'' \<noteq> ''s2'' \<and> ''t1'' \<noteq> ''s2'' \<and>
   list_all (\<lambda>e. \<not> may_join ''t1'' (student_room ''s1'') (snd e)) later_updates \<and>
   list_all (\<lambda>e. \<not> may_leave ''t1'' (snd e)) later_updates \<and>
   new_emits switched (run later_updates switched) =
     [({}, student_code_update ''s1'' ''<h1>'' '''' 20),
      ({''t1''}, student_code_update ''s2'' ''<h2>'' '''' 30)] \<and>
   ''t1'' \<notin> rooms switched (student_room ''s1'') \<and>
   ''t1'' \<in> rooms switched (student_room ''s2'') \<and>
   ''t1'' \<notin> rooms (run later_updates switched) (student_room ''s1'') \<and>
   stale_deliveries ''t1'' ''s1'' (new_emits switched (run later_updates switched)) = [] \<and>
   ''t1'' \<notin> recipients (run later_updates switched)
              (code_update ''s1'' ''<p>'' ''p{}'' (run later_updates switched)) \<and>
   ''t1'' \<in> rooms (run later_updates switched) (student_room ''s2'') - {''s2''}"
proof -
  have a: "''s1'' \<noteq> []" "''s1'' \<noteq> ''s2''" "''t1'' \<noteq> ''s2''" by simp_all
  note t = switch_subscription_routing [OF a switched_def refl later_updates_allowed(1),
      where h = "''<p>''" and c = "''p{}''"]
  note c1 = t [THEN conjunct1]
  note c2 = t [THEN conjunct2, THEN conjunct1]
  note c3 = t [THEN conjunct2, THEN conjunct2, THEN conjunct1]
  note c4 = t [THEN conjunct2, THEN conjunct2, THEN conjunct2, THEN conjunct1]
  note c5 = t [THEN conjunct2, THEN conjunct2, THEN conjunct2, THEN conjunct2, THEN conjunct1]
  note c6 = t [THEN conjunct2, THEN conjunct2, THEN conjunct2, THEN conjunct2, THEN conjunct2,
      THEN mp, OF conjI [OF later_updates_allowed(2) later_updates_cache], THEN conjunct2]
  show ?thesis
    by (intro conjI)
       (fact a later_updates_allowed later_updates_emits c1 c2 c3 c4 c5 c6)+
qed

subsection \<open>Subscribing to a student that is gone\<close>

text \<open>
  The claim C5 as written fails: after the student \<open>s1\<close> has left, the teacher's
  \<^verbatim>\<open>subscribe_to_student\<close> for \<open>s1\<close> emits nothing at all, so no snapshot reaches the teacher.
\<close>

theorem vanished_target_gets_no_reply:
  "cache_get (inMemoryCache after_student_left) ''s1'' = None \<and>
   new_emits after_student_left (subscribe_to_student ''t1'' ''s1'' after_student_left) = []"
  by (simp add: after_student_left_def model_defs)

text \<open>
  C5, amended. A \<^verbatim>\<open>subscribe_to_student\<close> whose target has no session in the cache does not
  fault (nothing is logged) and sends no event to anyone, the viewer included: the guard
  \<^verbatim>\<open>if (studentCode)\<close> skips the snapshot. The cache is untouched, and the viewer is
  subscribed to the room of the target all the same.
\<close>

theorem subscribe_vanished:
  assumes "cache_get (inMemoryCache s) target = None"
  shows "new_emits s (subscribe_to_student sock target s) = [] \<and>
         console (subscribe_to_student sock target s) = console s \<and>
         inMemoryCache (subscribe_to_student sock target s) = inMemoryCache s \<and>
         currentSubscription (subscribe_to_student sock target s) sock = Some target \<and>
         sock \<in> rooms (subscribe_to_student sock target s) (student_room target)"
  using assms
  by (auto simp: subscribe_to_student_def Let_def new_emits_def socket_join_def
      socket_leave_def cache_get_def split: option.splits)

theorem subscribe_vanished_witness:
  "cache_get (inMemoryCache after_student_left) ''s1'' = None \<and>
   new_emits after_student_left (subscribe_to_student ''t1'' ''s1'' after_student_left) = [] \<and>
   console (subscribe_to_student ''t1'' ''s1'' after_student_left) = console after_student_left \<and>
   inMemoryCache (subscribe_to_student ''t1'' ''s1'' after_student_left) =
     inMemoryCache after_student_left \<and>
   currentSubscription (subscribe_to_student ''t1'' ''s1'' after_student_left) ''t1'' = Some ''s1'' \<and>
   ''t1'' \<in> rooms (subscribe_to_student ''t1'' ''s1'' after_student_left) (student_room ''s1'')"
proof -
  have gone: "cache_get (inMemoryCache after_student_left) ''s1'' = None"
    by (simp add: after_student_left_def model_defs)
  from subscribe_vanished [OF gone, of "''t1''"] gone show ?thesis by simp
qed

subsection \<open>The capacity ceiling\<close>

lemma count_delete_le: "count_in_class (cache_delete k c) code \<le> count_in_class c code"
  by (induction c) (auto simp: count_in_class_def cache_delete_def cache_values_def)

lemma count_delete_less:
  assumes "map_of c k = Some ss" and "classCode ss = code"
  shows "count_in_class (cache_delete k c) code < count_in_class c code"
  using assms
proof (induction c)
  case Nil
  then show ?case by simp
next
  case (Cons p c)
  obtain k' v where p: "p = (k', v)" by (cases p)
  note le = count_delete_le [of k c code]
  show ?case
  proof (cases "k' = k")
    case True
    with Cons.prems p have "classCode v = code" by simp
    with True p le show ?thesis
      by (simp add: count_in_class_def cache_delete_def cache_values_def)
  next
    case False
    with Cons p show ?thesis
      by (simp add: count_in_class_def cache_delete_def cache_values_def)
  qed
qed

lemma db_done_fresh:
  assumes "map_of (awaiting s) (length (storeOps s)) = None"
  shows "db_done (length (storeOps s)) ok (db_start opn k s) =
           run_continuation k ok (s\<lparr>storeOps := storeOps s @ [opn]\<rparr>)"
proof -
  have "AList.delete (length (storeOps s)) (awaiting s) = awaiting s"
    using assms by (simp add: delete_idem map_of_eq_None_iff)
  then show ?thesis
    using assms by (simp add: db_done_def db_start_def map_add_def AList.delete_eq)
qed

lemma clear_debounce_fields:
  "inMemoryCache (clear_debounce sock s) = inMemoryCache s"
  "classes (clear_debounce sock s) = classes s"
  "storeOps (clear_debounce sock s) = storeOps s"
  "awaiting (clear_debounce sock s) = awaiting s"
  "outbox (clear_debounce sock s) = outbox s"
  "console (clear_debounce sock s) = console s"
  "rooms (clear_debounce sock s) = rooms s"
  "now (clear_debounce sock s) = now s"
  by (simp_all add: clear_debounce_def clearTimeout_def split: option.splits)

lemma socket_closed_fields:
  "inMemoryCache (socket_closed sock s) = inMemoryCache s"
  "classes (socket_closed sock s) = classes s"
  "storeOps (socket_closed sock s) = storeOps s"
  "awaiting (socket_closed sock s) = awaiting s"
  "outbox (socket_closed sock s) = outbox s"
  "console (socket_closed sock s) = console s"
  "debounceTimers (socket_closed sock s) = debounceTimers s"
  "timeouts (socket_closed sock s) = timeouts s"
  "now (socket_closed sock s) = now s"
  by (simp_all add: socket_closed_def)

lemma disconnect_joined:
  assumes "cache_get (inMemoryCache s) sock = Some ss"
  shows "disconnect sock s =
           db_start (CodeSession_updateBySocketId sock (html ss) (css ss) (now s))
             (after_final_update sock ss) (clear_debounce sock (socket_closed sock s))"
  using assms by (simp add: disconnect_def Let_def socket_closed_fields)

lemma final_continuation:
  "inMemoryCache (run_continuation (after_final_update sock ss) ok s) =
     cache_delete sock (inMemoryCache s)"
  "classes (run_continuation (after_final_update sock ss) ok s) = classes s"
  "storeOps (run_continuation (after_final_update sock ss) ok s) = storeOps s"
  by (simp_all add: run_continuation_def Let_def emit_to_room_def console_error_def)

lemma disconnected_eq:
  assumes "cache_get (inMemoryCache s) sock = Some ss"
    and "map_of (awaiting s) (length (storeOps s)) = None"
  shows "disconnected sock ok s =
      run_continuation (after_final_update sock ss) ok
        ((clear_debounce sock (socket_closed sock s))\<lparr>storeOps := storeOps s @
           [CodeSession_updateBySocketId sock (html ss) (css ss) (now s)]\<rparr>)"
proof -
  let ?s1 = "clear_debounce sock (socket_closed sock s)"
  have fresh: "map_of (awaiting ?s1) (length (storeOps ?s1)) = None"
    using assms(2) by (simp add: clear_debounce_fields socket_closed_fields)
  show ?thesis
    unfolding disconnected_def disconnect_joined [OF assms(1)]
    using db_done_fresh [OF fresh]
    by (simp add: clear_debounce_fields socket_closed_fields)
qed

lemma disconnected_cache:
  assumes "cache_get (inMemoryCache s) sock = Some ss"
    and "map_of (awaiting s) (length (storeOps s)) = None"
  shows "inMemoryCache (disconnected sock ok s) = cache_delete sock (inMemoryCache s)"
    and "classes (disconnected sock ok s) = classes s"
  unfolding disconnected_eq [OF assms]
  by (simp_all add: final_continuation clear_debounce_fields socket_closed_fields)

lemma disconnected_frees_seat:
  assumes "cache_get (inMemoryCache s) victim = Some ss" and "classCode ss = code"
    and "map_of (awaiting s) (length (storeOps s)) = None"
  shows "count_in_class (inMemoryCache (disconnected victim ok s)) code
           < count_in_class (inMemoryCache s) code"
  using assms count_delete_less [of "inMemoryCache s" victim ss code]
  by (simp add: disconnected_cache cache_get_def)

lemma join_accept_obs:
  assumes "Class_findOne (classes s) code = Some d" and "cls_isActive d"
    and "count_in_class (inMemoryCache s) code < 60"
  shows "last (outbox (handler (JoinClass sock name code uuid) s)) =
           ({sock}, join_success uuid sock True)"
    and "cache_get (inMemoryCache (handler (JoinClass sock name code uuid) s)) sock =
           Some \<lparr> studentId = uuid, studentName = name, classCode = code, socketId = sock,
                  html = '''', css = '''', lastUpdate = now s \<rparr>"
    and "last (outbox (handler (RejoinClass sock stid name code) s)) =
           ({sock}, rejoin_success stid sock)"
    and "cache_get (inMemoryCache (handler (RejoinClass sock stid name code) s)) sock =
           Some \<lparr> studentId = stid, studentName = name, classCode = code, socketId = sock,
                  html = '''', css = '''', lastUpdate = now s \<rparr>"
  using assms
  by (simp_all add: join_class_accept rejoin_class_accept MAX_STUDENTS_PER_CLASS_def cache_get_set)

text \<open>
  The handlers count the cache entries that carry the class code as the request spells it.
  In terms of that count: below 60 the request is accepted, otherwise refused, and the end
  of a disconnect frees a seat.
\<close>

lemma ceiling_by_spelling:
  assumes "Class_findOne (classes s) code = Some d" and "cls_isActive d"
    and "sj = handler (JoinClass sock name code uuid) s"
    and "sr = handler (RejoinClass sock stid name code) s"
    and "sd = disconnected victim ok s"
  shows
    "(if count_in_class (inMemoryCache s) code < 60
      then last (outbox sj) = ({sock}, join_success uuid sock True) \<and>
           cache_get (inMemoryCache sj) sock =
             Some \<lparr> studentId = uuid, studentName = name, classCode = code, socketId = sock,
                    html = '''', css = '''', lastUpdate = now s \<rparr> \<and>
           last (outbox sr) = ({sock}, rejoin_success stid sock) \<and>
           cache_get (inMemoryCache sr) sock =
             Some \<lparr> studentId = stid, studentName = name, classCode = code, socketId = sock,
                    html = '''', css = '''', lastUpdate = now s \<rparr>
      else sj = emit_self sock (join_error ''Class is full (maximum 60 students)'') s \<and>
           sr = emit_self sock (rejoin_error ''Class is full (maximum 60 students)'' False) s) \<and>
     (count_in_class (inMemoryCache s) code = 60 \<and>
      cache_get (inMemoryCache s) victim = Some ss \<and> classCode ss = code \<and>
      map_of (awaiting s) (length (storeOps s)) = None \<longrightarrow>
        count_in_class (inMemoryCache sd) code < 60 \<and>
        last (outbox (handler (JoinClass sock name code uuid) sd)) =
          ({sock}, join_success uuid sock True) \<and>
        last (outbox (handler (RejoinClass sock stid name code) sd)) =
          ({sock}, rejoin_success stid sock))"
proof (intro conjI impI)
  show "if count_in_class (inMemoryCache s) code < 60
      then last (outbox sj) = ({sock}, join_success uuid sock True) \<and>
           cache_get (inMemoryCache sj) sock =
             Some \<lparr> studentId = uuid, studentName = name, classCode = code, socketId = sock,
                    html = '''', css = '''', lastUpdate = now s \<rparr> \<and>
           last (outbox sr) = ({sock}, rejoin_success stid sock) \<and>
           cache_get (inMemoryCache sr) sock =
             Some \<lparr> studentId = stid, studentName = name, classCode = code, socketId = sock,
                    html = '''', css = '''', lastUpdate = now s \<rparr>
      else sj = emit_self sock (join_error ''Class is full (maximum 60 students)'') s \<and>
           sr = emit_self sock (rejoin_error ''Class is full (maximum 60 students)'' False) s"
  proof (cases "count_in_class (inMemoryCache s) code < 60")
    case True
    with join_accept_obs [OF assms(1,2) True] show ?thesis
      unfolding assms(3,4) by simp
  next
    case False
    then have "\<not> count_in_class (inMemoryCache s) code < MAX_STUDENTS_PER_CLASS"
      by (simp add: MAX_STUDENTS_PER_CLASS_def)
    with False assms(1,2) show ?thesis
      unfolding assms(3,4) by (simp add: join_class_full rejoin_class_full)
  qed
next
  assume a: "count_in_class (inMemoryCache s) code = 60 \<and>
      cache_get (inMemoryCache s) victim = Some ss \<and> classCode ss = code \<and>
      map_of (awaiting s) (length (storeOps s)) = None"
  then have less: "count_in_class (inMemoryCache sd) code < 60"
    unfolding assms(5) using disconnected_frees_seat [of s victim ss code ok] by simp
  have dir: "Class_findOne (classes sd) code = Some d"
    unfolding assms(5) using a assms(1) by (simp add: disconnected_cache)
  show "count_in_class (inMemoryCache sd) code < 60" by (rule less)
  show "last (outbox (handler (JoinClass sock name code uuid) sd)) =
          ({sock}, join_success uuid sock True)"
    by (rule join_accept_obs(1) [OF dir assms(2) less])
  show "last (outbox (handler (RejoinClass sock stid name code) sd)) =
          ({sock}, rejoin_success stid sock)"
    by (rule join_accept_obs(3) [OF dir assms(2) less])
qed

lemma full_class_seated: "seated sixty_ids full_class"
  unfolding full_class_def sixty_joins_def
  by (rule seated_run) (simp_all add: distinct_sixty_ids length_sixty_ids)

lemma full_class_cache: "inMemoryCache full_class = map seat sixty_ids"
  using full_class_seated by (simp add: seated_def)

lemma hd_sixty_ids: "sixty_ids = ''00'' # tl sixty_ids"
  by (simp add: sixty_ids_def)

lemma full_count: "count_in_class (inMemoryCache full_class) ''AB12CD'' = 60"
  by (simp add: full_class_cache count_seats length_sixty_ids)

lemma full_first: "cache_get (inMemoryCache full_class) ''00'' = Some (snd (seat ''00''))"
  unfolding full_class_cache
  apply (subst hd_sixty_ids)
  apply (simp add: cache_get_def seat_def)
  done

lemma full_aw: "map_of (awaiting full_class) (length (storeOps full_class)) = None"
  unfolding full_class_def by (rule well_formed_fresh [OF reachable_well_formed])

lemma full_class_classes: "classes full_class = demo_classes"
  using full_class_seated by (simp add: seated_def)

lemma two_students_classes: "classes two_students = demo_classes"
  by (simp add: two_students_def model_defs)

lemma two_students_count: "count_in_class (inMemoryCache two_students) ''AB12CD'' = 2"
  by (simp add: two_students_cache count_in_class_def cache_values_def)

lemma count_is_class_count:
  assumes "Class_findOne coll code = Some d"
    and "list_all (\<lambda>e. classCode (snd e) = code) (sessions_of_class coll c d)"
  shows "count_in_class c code = length (sessions_of_class coll c d)"
proof -
  have "filter (\<lambda>e. classCode (snd e) = code) c = sessions_of_class coll c d"
    unfolding sessions_of_class_def
  proof (rule filter_cong [OF refl])
    fix e assume e: "e \<in> set c"
    show "(classCode (snd e) = code) = (Class_findOne coll (classCode (snd e)) = Some d)"
    proof
      assume "classCode (snd e) = code"
      with assms(1) show "Class_findOne coll (classCode (snd e)) = Some d" by simp
    next
      assume "Class_findOne coll (classCode (snd e)) = Some d"
      with e have "e \<in> set (sessions_of_class coll c d)" by (simp add: sessions_of_class_def)
      with assms(2) show "classCode (snd e) = code" by (simp add: list_all_iff)
    qed
  qed
  moreover have "count_in_class c code = length (filter (\<lambda>e. classCode (snd e) = code) c)"
    by (simp add: count_in_class_def cache_values_def filter_map o_def)
  ultimately show ?thesis by simp
qed

lemma sessions_of_class_delete:
  "list_all P (sessions_of_class coll c d) \<Longrightarrow>
   list_all P (sessions_of_class coll (cache_delete k c) d)"
  by (auto simp: sessions_of_class_def cache_delete_def AList.delete_eq list_all_iff)

lemma demo_lookup_lower: "Class_findOne demo_classes ''ab12cd'' = Some demo_class"
  by (simp add: demo_classes_def demo_class_def Class_findOne_def case_defs)

lemma demo_lookup_class: "Class_findOne demo_classes ''AB12CD'' = Some demo_class"
  by (simp add: demo_lookup demo_class_def)

lemma seats_of_class: "sessions_of_class demo_classes (map seat ids) demo_class = map seat ids"
  by (simp add: sessions_of_class_def seat_def demo_lookup_class filter_map o_def)

lemma seats_spelled:
  "list_all (\<lambda>e. classCode (snd e) = ''AB12CD'') (map seat ids)"
  by (simp add: list_all_iff seat_def)

lemma zz_fresh: "''zz'' \<notin> fst ` set (map seat sixty_ids)"
  by (simp add: sixty_ids_def seat_def)

lemma full_class_sessions:
  "length (sessions_of_class (classes full_class) (inMemoryCache full_class) demo_class) = 60"
  by (simp add: full_class_classes full_class_cache seats_of_class length_sixty_ids)

lemma pending_disconnect:
  "inMemoryCache (disconnect ''00'' full_class) = inMemoryCache full_class"
  "classes (disconnect ''00'' full_class) = classes full_class"
  by (simp_all add: disconnect_joined [OF full_first] db_start_def clear_debounce_fields
      socket_closed_fields)

text \<open>
  The claim C3 as written fails on the full class in two ways. First, one of the sixty
  sessions disconnects and a join arrives before the final update has settled: the session
  is still in the cache and the join is refused. Second, a join spells the code of the
  class in lower case: the lookup resolves it to the class, the count of that spelling is
  0, the join is accepted, and the class has 61 live sessions.
\<close>

theorem ceiling_counterexamples:
  "length (sessions_of_class (classes full_class) (inMemoryCache full_class) demo_class) = 60 \<and>
   cache_get (inMemoryCache full_class) ''00'' = Some (snd (seat ''00'')) \<and>
   handler (JoinClass ''zz'' ''Zoe'' ''AB12CD'' ''uz'') (disconnect ''00'' full_class) =
     emit_self ''zz'' (join_error ''Class is full (maximum 60 students)'')
       (disconnect ''00'' full_class) \<and>
   Class_findOne (classes full_class) ''ab12cd'' = Some demo_class \<and>
   last (outbox (handler (JoinClass ''zz'' ''Zoe'' ''ab12cd'' ''uz'') full_class)) =
     ({''zz''}, join_success ''uz'' ''zz'' True) \<and>
   length (sessions_of_class (classes full_class)
             (inMemoryCache (handler (JoinClass ''zz'' ''Zoe'' ''ab12cd'' ''uz'') full_class))
             demo_class) = 61"
proof -
  have act: "cls_isActive demo_class" by (simp add: demo_class_def)
  have p: "handler (JoinClass ''zz'' ''Zoe'' ''AB12CD'' ''uz'') (disconnect ''00'' full_class) =
     emit_self ''zz'' (join_error ''Class is full (maximum 60 students)'')
       (disconnect ''00'' full_class)"
    by (simp add: pending_disconnect full_class_classes demo_lookup_class
        join_class_full [OF act] full_count MAX_STUDENTS_PER_CLASS_def)
  have d: "Class_findOne (classes full_class) ''ab12cd'' = Some demo_class"
    by (simp add: full_class_classes demo_lookup_lower)
  have c: "count_in_class (inMemoryCache full_class) ''ab12cd'' < MAX_STUDENTS_PER_CLASS"
    by (simp add: full_class_cache count_in_class_def cache_values_def seat_def o_def
        MAX_STUDENTS_PER_CLASS_def)
  have j: "handler (JoinClass ''zz'' ''Zoe'' ''ab12cd'' ''uz'') full_class =
      join_class ''zz'' ''Zoe'' ''ab12cd'' ''uz'' (Resolved (Some demo_class)) full_class"
    by (simp add: d)
  have l: "last (outbox (handler (JoinClass ''zz'' ''Zoe'' ''ab12cd'' ''uz'') full_class)) =
     ({''zz''}, join_success ''uz'' ''zz'' True)"
    unfolding j by (simp add: join_class_accept [OF act c])
  have cache: "inMemoryCache (handler (JoinClass ''zz'' ''Zoe'' ''ab12cd'' ''uz'') full_class) =
      map seat sixty_ids @
        [(''zz'', \<lparr>studentId = ''uz'', studentName = ''Zoe'', classCode = ''ab12cd'',
                   socketId = ''zz'', html = '''', css = '''', lastUpdate = now full_class\<rparr>)]"
    unfolding j
    by (simp add: join_class_accept [OF act c] cache_set_def full_class_cache
        update_fresh_key [OF zz_fresh])
  have n: "length (sessions_of_class (classes full_class)
             (inMemoryCache (handler (JoinClass ''zz'' ''Zoe'' ''ab12cd'' ''uz'') full_class))
             demo_class) = 61"
    unfolding cache full_class_classes
    using seats_of_class [of sixty_ids]
    by (simp add: sessions_of_class_def demo_lookup_lower length_sixty_ids)
  from full_class_sessions full_first p d l n show ?thesis by simp
qed

text \<open>
  C3, amended. A join or rejoin request whose class code the directory resolves to an
  active class, in a state where every live session of that class carries the code as the
  request spells it: when the class has fewer than 60 live sessions the request is
  accepted (the session is stored under the socket and the socket is sent
  \<^verbatim>\<open>join_success\<close> or \<^verbatim>\<open>rejoin_success\<close>), so the 60th session is admitted; otherwise the
  only effect is a \<^verbatim>\<open>join_error\<close> or \<^verbatim>\<open>rejoin_error\<close> "Class is full" to the socket. When
  the class has exactly 60 live sessions and the disconnect of one of them has run to its
  end, the final update settled, fewer than 60 remain and a join or rejoin is accepted
  again.
\<close>

theorem capacity_ceiling:
  assumes "Class_findOne (classes s) code = Some d" and "cls_isActive d"
    and "list_all (\<lambda>e. classCode (snd e) = code)
           (sessions_of_class (classes s) (inMemoryCache s) d)"
    and "sj = handler (JoinClass sock name code uuid) s"
    and "sr = handler (RejoinClass sock stid name code) s"
    and "sd = disconnected victim ok s"
  shows
    "(if length (sessions_of_class (classes s) (inMemoryCache s) d) < 60
      then last (outbox sj) = ({sock}, join_success uuid sock True) \<and>
           cache_get (inMemoryCache sj) sock =
             Some \<lparr> studentId = uuid, studentName = name, classCode = code, socketId = sock,
                    html = '''', css = '''', lastUpdate = now s \<rparr> \<and>
           last (outbox sr) = ({sock}, rejoin_success stid sock) \<and>
           cache_get (inMemoryCache sr) sock =
             Some \<lparr> studentId = stid, studentName = name, classCode = code, socketId = sock,
                    html = '''', css = '''', lastUpdate = now s \<rparr>
      else sj = emit_self sock (join_error ''Class is full (maximum 60 students)'') s \<and>
           sr = emit_self sock (rejoin_error ''Class is full (maximum 60 students)'' False) s) \<and>
     (length (sessions_of_class (classes s) (inMemoryCache s) d) = 60 \<and>
      cache_get (inMemoryCache s) victim = Some ss \<and> classCode ss = code \<and>
      map_of (awaiting s) (length (storeOps s)) = None \<longrightarrow>
        length (sessions_of_class (classes sd) (inMemoryCache sd) d) < 60 \<and>
        last (outbox (handler (JoinClass sock name code uuid) sd)) =
          ({sock}, join_success uuid sock True) \<and>
        last (outbox (handler (RejoinClass sock stid name code) sd)) =
          ({sock}, rejoin_success stid sock))"
proof -
  note eq = count_is_class_count [OF assms(1,3)]
  note old = ceiling_by_spelling [OF assms(1,2,4,5,6), where ss = ss, unfolded eq]
  have sd_eq: "count_in_class (inMemoryCache sd) code =
      length (sessions_of_class (classes sd) (inMemoryCache sd) d)"
    if v: "cache_get (inMemoryCache s) victim = Some ss"
      and f: "map_of (awaiting s) (length (storeOps s)) = None"
  proof -
    have c: "inMemoryCache sd = cache_delete victim (inMemoryCache s)" "classes sd = classes s"
      unfolding assms(6) by (rule disconnected_cache [OF v f])+
    show ?thesis
      unfolding c
      by (rule count_is_class_count [OF assms(1) sessions_of_class_delete [OF assms(3)]])
  qed
  show ?thesis
  proof (intro conjI impI)
    show "if length (sessions_of_class (classes s) (inMemoryCache s) d) < 60
      then last (outbox sj) = ({sock}, join_success uuid sock True) \<and>
           cache_get (inMemoryCache sj) sock =
             Some \<lparr> studentId = uuid, studentName = name, classCode = code, socketId = sock,
                    html = '''', css = '''', lastUpdate = now s \<rparr> \<and>
           last (outbox sr) = ({sock}, rejoin_success stid sock) \<and>
           cache_get (inMemoryCache sr) sock =
             Some \<lparr> studentId = stid, studentName = name, classCode = code, socketId = sock,
                    html = '''', css = '''', lastUpdate = now s \<rparr>
      else sj = emit_self sock (join_error ''Class is full (maximum 60 students)'') s \<and>
           sr = emit_self sock (rejoin_error ''Class is full (maximum 60 students)'' False) s"
      by (rule old [THEN conjunct1])
  next
    assume a: "length (sessions_of_class (classes s) (inMemoryCache s) d) = 60 \<and>
      cache_get (inMemoryCache s) victim = Some ss \<and> classCode ss = code \<and>
      map_of (awaiting s) (length (storeOps s)) = None"
    note r = old [THEN conjunct2, THEN mp, OF a]
    from a have e: "count_in_class (inMemoryCache sd) code =
        length (sessions_of_class (classes sd) (inMemoryCache sd) d)"
      by (intro sd_eq) simp_all
    from r e show "length (sessions_of_class (classes sd) (inMemoryCache sd) d) < 60" by simp
    from r show "last (outbox (handler (JoinClass sock name code uuid) sd)) =
          ({sock}, join_success uuid sock True)" by simp
    from r show "last (outbox (handler (RejoinClass sock stid name code) sd)) =
          ({sock}, rejoin_success stid sock)" by simp
  qed
qed

lemma two_students_sessions:
  "sessions_of_class (classes two_students) (inMemoryCache two_students) demo_class =
     inMemoryCache two_students"
  by (simp add: two_students_classes two_students_cache sessions_of_class_def
      demo_lookup_class)

theorem capacity_ceiling_witness:
  "Class_findOne (classes full_class) ''AB12CD'' = Some demo_class \<and>
   list_all (\<lambda>e. classCode (snd e) = ''AB12CD'')
     (sessions_of_class (classes full_class) (inMemoryCache full_class) demo_class) \<and>
   length (sessions_of_class (classes full_class) (inMemoryCache full_class) demo_class) = 60 \<and>
   handler (JoinClass ''zz'' ''Zoe'' ''AB12CD'' ''uz'') full_class =
     emit_self ''zz'' (join_error ''Class is full (maximum 60 students)'') full_class \<and>
   handler (RejoinClass ''zz'' ''uz'' ''Zoe'' ''AB12CD'') full_class =
     emit_self ''zz'' (rejoin_error ''Class is full (maximum 60 students)'' False) full_class \<and>
   cache_get (inMemoryCache full_class) ''00'' = Some (snd (seat ''00'')) \<and>
   length (sessions_of_class (classes (disconnected ''00'' True full_class))
             (inMemoryCache (disconnected ''00'' True full_class)) demo_class) < 60 \<and>
   last (outbox (handler (JoinClass ''zz'' ''Zoe'' ''AB12CD'' ''uz'')
                   (disconnected ''00'' True full_class))) =
     ({''zz''}, join_success ''uz'' ''zz'' True) \<and>
   last (outbox (handler (RejoinClass ''zz'' ''uz'' ''Zoe'' ''AB12CD'')
                   (disconnected ''00'' True full_class))) =
     ({''zz''}, rejoin_success ''uz'' ''zz'') \<and>
   length (sessions_of_class (classes two_students) (inMemoryCache two_students) demo_class) = 2 \<and>
   last (outbox (handler (JoinClass ''s3'' ''Cy'' ''AB12CD'' ''u3'') two_students)) =
     ({''s3''}, join_success ''u3'' ''s3'' True)"
proof -
  have d1: "Class_findOne (classes full_class) ''AB12CD'' = Some demo_class"
    by (simp add: full_class_classes demo_lookup_class)
  have d2: "Class_findOne (classes two_students) ''AB12CD'' = Some demo_class"
    by (simp add: two_students_classes demo_lookup_class)
  have act: "cls_isActive demo_class" by (simp add: demo_class_def)
  have sp1: "list_all (\<lambda>e. classCode (snd e) = ''AB12CD'')
     (sessions_of_class (classes full_class) (inMemoryCache full_class) demo_class)"
    by (simp add: full_class_classes full_class_cache seats_of_class seats_spelled)
  have sp2: "list_all (\<lambda>e. classCode (snd e) = ''AB12CD'')
     (sessions_of_class (classes two_students) (inMemoryCache two_students) demo_class)"
    by (simp add: two_students_sessions) (simp add: two_students_cache)
  have n2: "length (sessions_of_class (classes two_students) (inMemoryCache two_students)
      demo_class) = 2"
    by (simp add: two_students_sessions) (simp add: two_students_cache)
  have cc: "classCode (snd (seat ''00'')) = ''AB12CD''" by (simp add: seat_def)
  note full = capacity_ceiling [where sock = "''zz''" and name = "''Zoe''" and uuid = "''uz''"
      and stid = "''uz''" and victim = "''00''" and ok = True and ss = "snd (seat ''00'')",
      OF d1 act sp1 refl refl refl, unfolded full_class_sessions]
  note two = capacity_ceiling [where sock = "''s3''" and name = "''Cy''" and uuid = "''u3''"
      and stid = "''u3''" and victim = "''s1''" and ok = True and ss = "snd (seat ''00'')",
      OF d2 act sp2 refl refl refl, unfolded n2]
  have f1: "handler (JoinClass ''zz'' ''Zoe'' ''AB12CD'' ''uz'') full_class =
     emit_self ''zz'' (join_error ''Class is full (maximum 60 students)'') full_class"
    and f2: "handler (RejoinClass ''zz'' ''uz'' ''Zoe'' ''AB12CD'') full_class =
     emit_self ''zz'' (rejoin_error ''Class is full (maximum 60 students)'' False) full_class"
    using full [THEN conjunct1] by simp_all
  note again = full [THEN conjunct2, THEN mp,
      OF conjI [OF refl conjI [OF full_first conjI [OF cc full_aw]]]]
  have t1: "last (outbox (handler (JoinClass ''s3'' ''Cy'' ''AB12CD'' ''u3'') two_students)) =
     ({''s3''}, join_success ''u3'' ''s3'' True)"
    using two [THEN conjunct1] by simp
  show ?thesis
    by (intro conjI)
       (fact d1 sp1 full_class_sessions f1 f2 full_first again [THEN conjunct1]
          again [THEN conjunct2, THEN conjunct1] again [THEN conjunct2, THEN conjunct2] n2 t1)+
qed

subsection \<open>Group events\<close>

text \<open>
  Each group event is emitted with \<^verbatim>\<open>socket.to(room)\<close>: it goes to the members of the room
  that bears the class code as the request (or the session) spells it, the sender left out.
\<close>

lemma group_event_delivery:
  assumes "cls_isActive d" and "count_in_class (inMemoryCache s) code < MAX_STUDENTS_PER_CLASS"
    and "sj = join_class sock name code uuid (Resolved (Some d)) s"
    and "sr = rejoin_class sock stid name code (Resolved (Some d)) s"
    and "sl = run_continuation (after_final_update sock session) ok s"
    and "sb = teacher_broadcast sock code message s"
  shows "new_emits s sj = [(rooms sj code - {sock}, student_joined name sock uuid (now s) False),
                           ({sock}, join_success uuid sock True)] \<and>
         new_emits s sr = [(rooms sr code - {sock}, student_joined name sock stid (now s) True),
                           ({sock}, rejoin_success stid sock)] \<and>
         new_emits s sl = [(rooms sl (classCode session) - {sock},
                            student_left sock (studentId session) (studentName session))] \<and>
         new_emits s sb = [(rooms sb code - {sock}, teacher_message message)] \<and>
         sock \<notin> recipients s sl \<and> sock \<notin> recipients s sb"
proof -
  have j: "new_emits s sj = [(rooms sj code - {sock}, student_joined name sock uuid (now s) False),
                           ({sock}, join_success uuid sock True)]"
    unfolding assms(3) by (simp add: join_class_accept [OF assms(1,2)] new_emits_def)
  have r: "new_emits s sr = [(rooms sr code - {sock}, student_joined name sock stid (now s) True),
                           ({sock}, rejoin_success stid sock)]"
    unfolding assms(4) by (simp add: rejoin_class_accept [OF assms(1,2)] new_emits_def)
  have l: "new_emits s sl = [(rooms sl (classCode session) - {sock},
                            student_left sock (studentId session) (studentName session))]"
    unfolding assms(5)
    by (simp add: run_continuation_def Let_def emit_to_room_def console_error_def new_emits_def)
  have b: "new_emits s sb = [(rooms sb code - {sock}, teacher_message message)]"
    unfolding assms(6) by (simp add: teacher_broadcast_def emit_to_room_def new_emits_def)
  from l have l': "sock \<notin> recipients s sl" by (simp add: recipients_def)
  from b have b': "sock \<notin> recipients s sb" by (simp add: recipients_def)
  from j r l b l' b' show ?thesis by simp
qed

lemma with_teacher_rooms: "rooms with_teacher ''AB12CD'' = {''t1'', ''s1'', ''s2''}"
  by (simp add: with_teacher_def two_students_def model_defs insert_commute)

lemma with_teacher_count: "count_in_class (inMemoryCache with_teacher) ''AB12CD'' < MAX_STUDENTS_PER_CLASS"
  by (simp add: with_teacher_def teacher_join_room_def socket_join_def two_students_count MAX_STUDENTS_PER_CLASS_def)

text \<open>
  C9. A group event is to reach all connections of the class group except its originator.
  On the run below it does not: the teacher \<open>t1\<close> and the students \<open>s1\<close>, \<open>s2\<close> sit in
  the room \<open>AB12CD\<close>; a third student joins with the code spelled \<open>ab12cd\<close>, which the
  lookup resolves to the same class. The handler puts the socket into the room \<open>ab12cd\<close> and
  emits \<^verbatim>\<open>student_joined\<close> to that room, where nobody else is. The teacher's broadcast to
  \<open>AB12CD\<close> then passes the third student by, and its \<^verbatim>\<open>student_left\<close> reaches nobody.
\<close>

theorem other_spelling_splits_group:
  "rooms with_teacher ''AB12CD'' = {''t1'', ''s1'', ''s2''} \<and>
   Class_findOne (classes with_teacher) ''ab12cd'' = Some demo_class \<and>
   new_emits with_teacher other_spelling =
     [({}, student_joined ''Cy'' ''s3'' ''u3'' 15 False),
      ({''s3''}, join_success ''u3'' ''s3'' True)] \<and>
   map (classCode \<circ> snd) (inMemoryCache other_spelling) = [''AB12CD'', ''AB12CD'', ''ab12cd''] \<and>
   new_emits other_spelling (teacher_broadcast ''t1'' ''AB12CD'' ''hello'' other_spelling) =
     [({''s1'', ''s2''}, teacher_message ''hello'')] \<and>
   new_emits other_spelling (disconnected ''s3'' True other_spelling) =
     [({}, student_left ''s3'' ''u3'' ''Cy'')]"
  by (simp add: other_spelling_def with_teacher_def two_students_def disconnected_def
      demo_class_def case_defs model_defs insert_commute)

subsection \<open>Registration and student ids\<close>

text \<open>
  The claim C6 as written fails: the rejoin of \<open>u1\<close> on the new socket \<open>s2\<close> leaves the
  entry of the old socket \<open>s1\<close> in the cache, and two live sessions of the class carry the
  student id \<open>u1\<close>.
\<close>

theorem rejoin_keeps_stale_entry:
  "inMemoryCache reconnect_early =
     [(''s1'', \<lparr>studentId = ''u1'', studentName = ''Ann'', classCode = ''AB12CD'',
               socketId = ''s1'', html = [], css = [], lastUpdate = 0\<rparr>),
      (''s2'', \<lparr>studentId = ''u1'', studentName = ''Ann'', classCode = ''AB12CD'',
               socketId = ''s2'', html = [], css = [], lastUpdate = 9000\<rparr>)] \<and>
   \<not> unique_student_ids (inMemoryCache reconnect_early)"
  by (simp add: reconnect_early_def unique_student_ids_def model_defs)

lemma unique_after_set:
  assumes "distinct (map fst c)" and "unique_student_ids c"
    and "\<not> held_elsewhere c k (classCode v) (studentId v)"
  shows "unique_student_ids (cache_set k v c)"
  using assms
proof (induction c)
  case Nil
  then show ?case by (simp add: unique_student_ids_def cache_set_def)
next
  case (Cons p c)
  obtain k' v' where p: "p = (k', v')" by (cases p)
  let ?g = "\<lambda>e::sid \<times> session. (classCode (snd e), studentId (snd e))"
  from Cons.prems p have dk: "k' \<notin> fst ` set c" "distinct (map fst c)"
    and du: "?g (k', v') \<notin> ?g ` set c" "unique_student_ids c"
    by (auto simp: unique_student_ids_def)
  from Cons.prems(3) p have nh: "\<not> held_elsewhere c k (classCode v) (studentId v)"
    and nh': "k' \<noteq> k \<Longrightarrow> ?g (k', v') \<noteq> ?g (k, v)"
    by (auto simp: held_elsewhere_def)
  show ?case
  proof (cases "k' = k")
    case True
    have "?g (k, v) \<notin> ?g ` set c"
    proof
      assume "?g (k, v) \<in> ?g ` set c"
      then obtain e where e: "e \<in> set c" "?g e = ?g (k, v)" by auto
      with dk(1) True have "fst e \<noteq> k" by force
      with e nh show False by (auto simp: held_elsewhere_def list_ex_iff)
    qed
    with True p du(2) show ?thesis
      by (simp add: unique_student_ids_def cache_set_def)
  next
    case False
    have ih: "unique_student_ids (cache_set k v c)"
      by (rule Cons.IH [OF dk(2) du(2) nh])
    have "?g (k', v') \<notin> ?g ` set (AList.update k v c)"
    proof
      assume "?g (k', v') \<in> ?g ` set (AList.update k v c)"
      then obtain e where e: "e \<in> set (AList.update k v c)" "?g e = ?g (k', v')" by auto
      from e(1) set_update_subset [of k v c] have "e = (k, v) \<or> e \<in> set c" by auto
      then show False
      proof
        assume "e = (k, v)"
        with e(2) nh' [OF False] show False by simp
      next
        assume "e \<in> set c"
        with e(2) du(1) show False by force
      qed
    qed
    with False p ih show ?thesis
      by (simp add: unique_student_ids_def cache_set_def)
  qed
qed

text \<open>
  C6, amended. An accepted join or rejoin stores the new session under the socket's own id:
  it replaces only an entry already stored under that socket id, every entry under another
  socket id stays as it was, and socket ids stay unique in the cache. Student ids stay
  unique within the class when no entry under another socket id already carries the
  student id in that class.
\<close>

theorem join_registers_under_connection_id:
  assumes "Class_findOne (classes s) code = Some d" and "cls_isActive d"
    and "count_in_class (inMemoryCache s) code < 60"
    and "distinct (map fst (inMemoryCache s))"
    and "sj = handler (JoinClass sock name code uuid) s"
    and "sr = handler (RejoinClass sock stid name code) s"
  shows "inMemoryCache sj = cache_set sock
           \<lparr> studentId = uuid, studentName = name, classCode = code, socketId = sock,
             html = '''', css = '''', lastUpdate = now s \<rparr> (inMemoryCache s) \<and>
         inMemoryCache sr = cache_set sock
           \<lparr> studentId = stid, studentName = name, classCode = code, socketId = sock,
             html = '''', css = '''', lastUpdate = now s \<rparr> (inMemoryCache s) \<and>
         (\<forall>k. k \<noteq> sock \<longrightarrow> cache_get (inMemoryCache sj) k = cache_get (inMemoryCache s) k \<and>
                           cache_get (inMemoryCache sr) k = cache_get (inMemoryCache s) k) \<and>
         distinct (map fst (inMemoryCache sj)) \<and> distinct (map fst (inMemoryCache sr)) \<and>
         (unique_student_ids (inMemoryCache s) \<and> \<not> held_elsewhere (inMemoryCache s) sock code uuid
            \<longrightarrow> unique_student_ids (inMemoryCache sj)) \<and>
         (unique_student_ids (inMemoryCache s) \<and> \<not> held_elsewhere (inMemoryCache s) sock code stid
            \<longrightarrow> unique_student_ids (inMemoryCache sr))"
proof -
  from assms(3) have lt: "count_in_class (inMemoryCache s) code < MAX_STUDENTS_PER_CLASS"
    by (simp add: MAX_STUDENTS_PER_CLASS_def)
  have j: "inMemoryCache sj = cache_set sock
           \<lparr> studentId = uuid, studentName = name, classCode = code, socketId = sock,
             html = '''', css = '''', lastUpdate = now s \<rparr> (inMemoryCache s)"
    unfolding assms(5) using assms(1) by (simp add: join_class_accept [OF assms(2) lt])
  have r: "inMemoryCache sr = cache_set sock
           \<lparr> studentId = stid, studentName = name, classCode = code, socketId = sock,
             html = '''', css = '''', lastUpdate = now s \<rparr> (inMemoryCache s)"
    unfolding assms(6) using assms(1) by (simp add: rejoin_class_accept [OF assms(2) lt])
  have o: "\<forall>k. k \<noteq> sock \<longrightarrow> cache_get (inMemoryCache sj) k = cache_get (inMemoryCache s) k \<and>
                           cache_get (inMemoryCache sr) k = cache_get (inMemoryCache s) k"
    by (simp add: j r cache_get_set_other)
  have dj: "distinct (map fst (inMemoryCache sj))" and dr: "distinct (map fst (inMemoryCache sr))"
    using assms(4) by (simp_all add: j r distinct_cache_set)
  have uj: "unique_student_ids (inMemoryCache s) \<and> \<not> held_elsewhere (inMemoryCache s) sock code uuid
            \<longrightarrow> unique_student_ids (inMemoryCache sj)"
    unfolding j using unique_after_set [OF assms(4)] by simp
  have ur: "unique_student_ids (inMemoryCache s) \<and> \<not> held_elsewhere (inMemoryCache s) sock code stid
            \<longrightarrow> unique_student_ids (inMemoryCache sr)"
    unfolding r using unique_after_set [OF assms(4)] by simp
  from j r o dj dr uj ur show ?thesis by blast
qed

theorem join_registers_under_connection_id_witness:
  "Class_findOne (classes two_students) ''AB12CD'' =
     Some \<lparr>cls_classCode = ''AB12CD'', cls_isActive = True\<rparr> \<and>
   count_in_class (inMemoryCache two_students) ''AB12CD'' < 60 \<and>
   distinct (map fst (inMemoryCache two_students)) \<and>
   unique_student_ids (inMemoryCache two_students) \<and>
   \<not> held_elsewhere (inMemoryCache two_students) ''s3'' ''AB12CD'' ''u3'' \<and>
   cache_get (inMemoryCache (handler (JoinClass ''s3'' ''Cy'' ''AB12CD'' ''u3'') two_students)) ''s1'' =
     cache_get (inMemoryCache two_students) ''s1'' \<and>
   distinct (map fst (inMemoryCache (handler (JoinClass ''s3'' ''Cy'' ''AB12CD'' ''u3'') two_students))) \<and>
   distinct (map fst (inMemoryCache (handler (RejoinClass ''s3'' ''u3'' ''Cy'' ''AB12CD'') two_students))) \<and>
   unique_student_ids (inMemoryCache (handler (JoinClass ''s3'' ''Cy'' ''AB12CD'' ''u3'') two_students)) \<and>
   unique_student_ids (inMemoryCache (handler (RejoinClass ''s3'' ''u3'' ''Cy'' ''AB12CD'') two_students))"
proof -
  have d: "Class_findOne (classes two_students) ''AB12CD'' =
      Some \<lparr>cls_classCode = ''AB12CD'', cls_isActive = True\<rparr>"
    by (simp add: two_students_classes demo_lookup)
  have act: "cls_isActive \<lparr>cls_classCode = ''AB12CD'', cls_isActive = True\<rparr>" by simp
  have c: "count_in_class (inMemoryCache two_students) ''AB12CD'' < 60"
    by (simp add: two_students_count)
  have k: "distinct (map fst (inMemoryCache two_students))"
    by (simp add: two_students_cache)
  have u: "unique_student_ids (inMemoryCache two_students)"
    by (simp add: two_students_cache unique_student_ids_def)
  have h: "\<not> held_elsewhere (inMemoryCache two_students) ''s3'' ''AB12CD'' ''u3''"
    by (simp add: two_students_cache held_elsewhere_def)
  note t = join_registers_under_connection_id [OF d act c k refl refl,
      where sock = "''s3''" and name = "''Cy''" and uuid = "''u3''" and stid = "''u3''"]
  note t3 = t [THEN conjunct2, THEN conjunct2]
  have ne: "''s1'' \<noteq> ''s3''" by simp
  note o = t3 [THEN conjunct1, rule_format, OF ne, THEN conjunct1]
  note dj = t3 [THEN conjunct2, THEN conjunct1]
  note dr = t3 [THEN conjunct2, THEN conjunct2, THEN conjunct1]
  note uj = t3 [THEN conjunct2, THEN conjunct2, THEN conjunct2, THEN conjunct1, rule_format,
      OF conjI [OF u h]]
  note ur = t3 [THEN conjunct2, THEN conjunct2, THEN conjunct2, THEN conjunct2, rule_format,
      OF conjI [OF u h]]
  show ?thesis
    by (intro conjI) (fact d c k u h o dj dr uj ur)+
qed

subsection \<open>Debounced write-back\<close>

text \<open>
  While the timers of a joined socket are consistent, a \<^verbatim>\<open>code_update\<close> leaves exactly one
  pending timeout for the socket, carrying the document just received, and makes no store
  call; a timeout that fires makes one store call with its document; a disconnect leaves
  no pending timeout for the socket and makes one store call with the cached document.
\<close>

lemma rearm_keeps_one_timer:
  assumes "cache_get (inMemoryCache s) sock = Some ss" and "timers_consistent s sock"
  shows "filter (\<lambda>x. cb_socket x = sock) (timeouts (code_update sock h c s)) =
           [\<lparr>handle = nextHandle s, due = now s + DEBOUNCE_DELAY, cb_socket = sock,
             cb_html = h, cb_css = c\<rparr>]"
    and "timers_consistent (code_update sock h c s) sock"
    and "storeOps (code_update sock h c s) = storeOps s"
proof -
  have none: "filter (\<lambda>x. cb_socket x = sock) (filter (\<lambda>x. handle x \<noteq> t) (timeouts s)) = []"
    if "debounceTimers s sock = Some t" for t
    using assms(2) that by (auto simp: timers_consistent_def list_all_iff filter_empty_conv)
  have none': "filter (\<lambda>x. cb_socket x = sock) (timeouts s) = []"
    if "debounceTimers s sock = None"
    using assms(2) that by (auto simp: timers_consistent_def list_all_iff filter_empty_conv)
  show "filter (\<lambda>x. cb_socket x = sock) (timeouts (code_update sock h c s)) =
           [\<lparr>handle = nextHandle s, due = now s + DEBOUNCE_DELAY, cb_socket = sock,
             cb_html = h, cb_css = c\<rparr>]"
    using assms(1) none none'
    by (cases "debounceTimers s sock")
       (simp_all add: code_update_def Let_def emit_to_room_def clearTimeout_def setTimeout_def)
  show "timers_consistent (code_update sock h c s) sock"
    using assms
    by (cases "debounceTimers s sock")
       (auto simp: code_update_def Let_def emit_to_room_def clearTimeout_def setTimeout_def
          timers_consistent_def list_all_iff)
  show "storeOps (code_update sock h c s) = storeOps s"
    using assms(1)
    by (cases "debounceTimers s sock")
       (simp_all add: code_update_def Let_def emit_to_room_def clearTimeout_def setTimeout_def)
qed

lemma fire_timeout_writes_once:
  "storeOps (fire_timeout x s) =
     storeOps s @ [CodeSession_updateBySocketId (cb_socket x) (cb_html x) (cb_css x)
                     (max (now s) (due x))]"
  by (simp add: fire_timeout_def Let_def db_start_def)

lemma disconnect_flushes_once:
  assumes "cache_get (inMemoryCache s) sock = Some ss" and "timers_consistent s sock"
  shows "filter (\<lambda>x. cb_socket x = sock) (timeouts (disconnect sock s)) = []"
    and "storeOps (disconnect sock s) =
           storeOps s @ [CodeSession_updateBySocketId sock (html ss) (css ss) (now s)]"
proof -
  have none: "filter (\<lambda>x. cb_socket x = sock) (filter (\<lambda>x. handle x \<noteq> t) (timeouts s)) = []"
    if "debounceTimers s sock = Some t" for t
    using assms(2) that by (auto simp: timers_consistent_def list_all_iff filter_empty_conv)
  have none': "filter (\<lambda>x. cb_socket x = sock) (timeouts s) = []"
    if "debounceTimers s sock = None"
    using assms(2) that by (auto simp: timers_consistent_def list_all_iff filter_empty_conv)
  show "filter (\<lambda>x. cb_socket x = sock) (timeouts (disconnect sock s)) = []"
    using none none'
    by (cases "debounceTimers s sock")
       (simp_all add: disconnect_joined [OF assms(1)] db_start_def clear_debounce_def
          socket_closed_def clearTimeout_def)
  show "storeOps (disconnect sock s) =
           storeOps s @ [CodeSession_updateBySocketId sock (html ss) (css ss) (now s)]"
    by (simp add: disconnect_joined [OF assms(1)] db_start_def clear_debounce_fields
          socket_closed_fields)
qed

text \<open>
  Consistency is lost when the update of a fired timer resolves after the next
  \<^verbatim>\<open>code_update\<close> has armed a new timer: line 248 deletes the entry of the new timer.
\<close>

lemma race_breaks_consistency:
  "\<not> timers_consistent (run race_prefix (init demo_classes)) ''s1''"
  by (simp add: race_prefix_def model_defs timers_consistent_def)

text \<open>
  C1. Two updates \<open>d1\<close>, \<open>d2\<close> of one connection within one debounce window are to end in
  one store update, carrying \<open>d2\<close>, and none carrying \<open>d1\<close>. On the run below the code
  makes two: \<open>d1\<close> arrives at 4001 while the update of the timer that fired at 4000 is
  awaited, finds the stale handle and arms a timer; the awaited update resolves at 4002 and
  deletes the map entry, which by then is the one of the new timer; \<open>d2\<close> arrives at 4003,
  finds no entry, clears nothing and arms a second timer. Both fire: the store is sent
  \<open>d1\<close> at 7001 and \<open>d2\<close> at 7003.
\<close>

theorem debounce_race_two_writes:
  "storeOps (run race_two_updates (init demo_classes)) =
     [CodeSession_create ''u1'' ''Ann'' ''AB12CD'' ''s1'' 86400000,
      CodeSession_updateBySocketId ''s1'' ''d0'' '''' 4000,
      CodeSession_updateBySocketId ''s1'' ''d1'' '''' 7001,
      CodeSession_updateBySocketId ''s1'' ''d2'' '''' 7003]"
  by (simp add: race_two_updates_def race_prefix_def model_defs)

text \<open>
  C2. A disconnect while a debounce timer is armed is to end in one store update, the
  immediate one, with the timer cancelled. On the run below the timer armed at 4001 has
  lost its map entry at 4002; the disconnect at 5000 finds no entry and clears nothing, so
  the timer is still pending after it, and the store is sent \<open>d1\<close> twice: at 5000 by the
  disconnect and at 7001 by the timer, when the session is gone from the cache.
\<close>

theorem disconnect_race_second_write:
  "map cb_html (timeouts (run (race_prefix @ [(5000, Disconnect ''s1'')]) (init demo_classes))) = [''d1''] \<and>
   storeOps (run race_disconnect (init demo_classes)) =
     [CodeSession_create ''u1'' ''Ann'' ''AB12CD'' ''s1'' 86400000,
      CodeSession_updateBySocketId ''s1'' ''d0'' '''' 4000,
      CodeSession_updateBySocketId ''s1'' ''d1'' '''' 5000,
      CodeSession_updateBySocketId ''s1'' ''d1'' '''' 7001] \<and>
   inMemoryCache (run race_disconnect (init demo_classes)) = []"
  by (simp add: race_disconnect_def race_prefix_def model_defs)

subsection \<open>Failed store calls\<close>

lemma continuation_failure:
  "console (run_continuation k False s) = console s @ [failure_message k]"
  "console (run_continuation k True s) = console s"
  "storeOps (run_continuation k ok s) = storeOps s"
  "timeouts (run_continuation k ok s) = timeouts s"
  "awaiting (run_continuation k ok s) = awaiting s"
  "outbox (run_continuation k False s) = outbox (run_continuation k True s)"
  "inMemoryCache (run_continuation k False s) = inMemoryCache (run_continuation k True s)"
  "rooms (run_continuation k ok s) = rooms s"
  "debounceTimers (run_continuation k False s) = debounceTimers s"
  by (cases k; simp add: run_continuation_def failure_message_def console_error_def
        emit_to_room_def Let_def)+

lemma continuation_recipients:
  "originator k = Some sock \<Longrightarrow> sock \<notin> recipients s (run_continuation k ok s)"
  by (cases k) (auto simp: run_continuation_def originator_def console_error_def
        emit_to_room_def Let_def recipients_def new_emits_def)

lemma continuation_no_emit:
  "originator k = None \<Longrightarrow> outbox (run_continuation k ok s) = outbox s"
  by (cases k) (auto simp: run_continuation_def originator_def console_error_def)

text \<open>
  C7. A store call of the core (create on join, upsert on rejoin, debounced update, final
  update on disconnect) whose promise rejects: one line is logged (none when it resolves);
  no store call is made, no timer is set and nothing stays awaited, so nothing is retried;
  the outbox is the one a resolved promise leaves, and the connection whose handler made
  the call receives nothing (no emit at all where the handler has ended, the
  \<^verbatim>\<open>student_left\<close> to the others on a disconnect); the cache is the one a resolved promise
  leaves, the rooms and the timer map are untouched.
\<close>

theorem store_failure_logged_and_dropped:
  assumes "map_of (awaiting s) i = Some k"
    and "sf = db_done i False s" and "so = db_done i True s"
  shows "console sf = console s @ [failure_message k] \<and> console so = console s \<and>
         storeOps sf = storeOps s \<and> timeouts sf = timeouts s \<and>
         awaiting sf = AList.delete i (awaiting s) \<and>
         outbox sf = outbox so \<and>
         (case originator k of
            None \<Rightarrow> outbox sf = outbox s
          | Some sock \<Rightarrow> sock \<notin> recipients s sf) \<and>
         inMemoryCache sf = inMemoryCache so \<and> rooms sf = rooms s \<and>
         debounceTimers sf = debounceTimers s"
proof -
  let ?s' = "s\<lparr>awaiting := AList.delete i (awaiting s)\<rparr>"
  have f: "sf = run_continuation k False ?s'" and o: "so = run_continuation k True ?s'"
    using assms by (simp_all add: db_done_def)
  have rec: "recipients ?s' x = recipients s x" for x
    by (simp add: recipients_def new_emits_def)
  have "case originator k of
            None \<Rightarrow> outbox sf = outbox s
          | Some sock \<Rightarrow> sock \<notin> recipients s sf"
  proof (cases "originator k")
    case None
    then show ?thesis using continuation_no_emit [OF None, of False ?s'] by (simp add: f)
  next
    case (Some sock)
    then show ?thesis
      using continuation_recipients [OF Some, of ?s' False] by (simp add: rec f)
  qed
  then show ?thesis
    unfolding f o by (simp add: continuation_failure)
qed

lemma debounced_pending_awaiting:
  "awaiting debounced_pending = [(1, after_debounced_update ''s1'')]"
  by (simp add: debounced_pending_def model_defs)

lemma debounced_pending_fields:
  "storeOps debounced_pending =
     [CodeSession_create ''u1'' ''Ann'' ''AB12CD'' ''s1'' 86400000,
      CodeSession_updateBySocketId ''s1'' ''<p>'' ''p{}'' 4000]"
  "console debounced_pending = []"
  "timeouts debounced_pending = []"
  by (simp_all add: debounced_pending_def model_defs)

theorem store_failure_logged_and_dropped_witness:
  "map_of (awaiting debounced_pending) 1 = Some (after_debounced_update ''s1'') \<and>
   console (db_done 1 False debounced_pending) = [''DB update error:''] \<and>
   console (db_done 1 True debounced_pending) = [] \<and>
   storeOps (db_done 1 False debounced_pending) =
     [CodeSession_create ''u1'' ''Ann'' ''AB12CD'' ''s1'' 86400000,
      CodeSession_updateBySocketId ''s1'' ''<p>'' ''p{}'' 4000] \<and>
   timeouts (db_done 1 False debounced_pending) = [] \<and>
   awaiting (db_done 1 False debounced_pending) = [] \<and>
   outbox (db_done 1 False debounced_pending) = outbox debounced_pending \<and>
   inMemoryCache (db_done 1 False debounced_pending) =
     inMemoryCache (db_done 1 True debounced_pending)"
proof -
  have a: "map_of (awaiting debounced_pending) 1 = Some (after_debounced_update ''s1'')"
    by (simp add: debounced_pending_awaiting)
  have o: "outbox (db_done 1 True debounced_pending) = outbox debounced_pending"
    using a by (simp add: db_done_def run_continuation_def)
  from store_failure_logged_and_dropped [OF a refl refl] a o show ?thesis
    by (simp add: debounced_pending_fields debounced_pending_awaiting failure_message_def)
qed

subsection \<open>The class directory lookup\<close>

lemma toUpperCase_ascii_string:
  "list_all is_ascii str \<Longrightarrow> toUpperCase str = map toUpperCase_ascii str"
  by (induction str) simp_all

lemma upper_lower_char: "toUpperCase_ascii (toLowerCase_char c) = toUpperCase_ascii c"
proof (cases "65 \<le> (of_char c :: nat) \<and> (of_char c :: nat) \<le> 90")
  case True
  then have "(of_char (char_of (of_char c + 32 :: nat)) :: nat) = of_char c + 32"
    by simp
  with True have "toUpperCase_ascii (toLowerCase_char c) = char_of (of_char c :: nat)"
    by (simp add: toUpperCase_ascii_def toLowerCase_char_def Let_def)
  moreover from True have "toUpperCase_ascii c = c"
    by (simp add: toUpperCase_ascii_def Let_def)
  ultimately show ?thesis by simp
next
  case False
  then have "toLowerCase_char c = c" by (auto simp add: toLowerCase_char_def Let_def)
  then show ?thesis by simp
qed

lemma lower_upper_char: "toLowerCase_char (toUpperCase_ascii c) = toLowerCase_char c"
proof (cases "97 \<le> (of_char c :: nat) \<and> (of_char c :: nat) \<le> 122")
  case True
  define n where "n = (of_char c :: nat)"
  from True have n: "97 \<le> n" "n \<le> 122" by (simp_all add: n_def)
  have up: "toUpperCase_ascii c = char_of (n - 32)"
    using True by (simp add: toUpperCase_ascii_def Let_def n_def)
  from n have "(n - 32) mod 256 = n - 32" by simp
  then have val: "(of_char (char_of (n - 32)) :: nat) = n - 32" by simp
  from n have rng: "65 \<le> n - 32" "n - 32 \<le> 90" "n - 32 + 32 = n" by arith+
  have "toLowerCase_char (char_of (n - 32)) = char_of (n - 32 + 32)"
    unfolding toLowerCase_char_def Let_def val using rng by simp
  also have "\<dots> = c" unfolding rng(3) by (simp add: n_def)
  finally have "toLowerCase_char (toUpperCase_ascii c) = c" by (simp add: up)
  moreover from True have "toLowerCase_char c = c"
    by (simp add: toLowerCase_char_def Let_def)
  ultimately show ?thesis by simp
next
  case False
  then have "toUpperCase_ascii c = c" by (auto simp add: toUpperCase_ascii_def Let_def)
  then show ?thesis by simp
qed

lemma upper_lower: "map toUpperCase_ascii (toLowerCase a) = map toUpperCase_ascii a"
  by (simp add: toLowerCase_def upper_lower_char)

lemma lower_upper: "toLowerCase (map toUpperCase_ascii a) = toLowerCase a"
  by (simp add: toLowerCase_def lower_upper_char)

lemma same_case_upper:
  "same_ignoring_case a b \<Longrightarrow> map toUpperCase_ascii a = map toUpperCase_ascii b"
  by (metis same_ignoring_case_def upper_lower)

lemma upper_same_case:
  "map toUpperCase_ascii a = map toUpperCase_ascii b \<Longrightarrow> same_ignoring_case a b"
  by (metis same_ignoring_case_def lower_upper)

lemma find_unique:
  "distinct (map f xs) \<Longrightarrow> x \<in> set xs \<Longrightarrow> find (\<lambda>y. f y = f x) xs = Some x"
  by (induction xs) (auto simp: image_iff)

lemma lookup_ascii_found:
  assumes "\<forall>d \<in> set coll. list_all is_ascii (cls_classCode d) \<and>
                          cls_classCode d = toUpperCase (cls_classCode d)"
    and "distinct (map cls_classCode coll)" and "list_all is_ascii code"
    and "d \<in> set coll" and "same_ignoring_case code (cls_classCode d)"
  shows "Class_findOne coll code = Some d"
proof -
  from assms(1,4) have a: "list_all is_ascii (cls_classCode d)"
    and u: "cls_classCode d = toUpperCase (cls_classCode d)" by auto
  from assms(5) have "map toUpperCase_ascii code = map toUpperCase_ascii (cls_classCode d)"
    by (rule same_case_upper)
  then have "toUpperCase code = toUpperCase (cls_classCode d)"
    by (simp add: toUpperCase_ascii_string assms(3) a)
  with u have "toUpperCase code = cls_classCode d" by simp
  with find_unique [OF assms(2,4)] show ?thesis
    by (simp add: Class_findOne_def)
qed

lemma lookup_ascii_none:
  assumes "\<forall>d \<in> set coll. list_all is_ascii (cls_classCode d) \<and>
                          cls_classCode d = toUpperCase (cls_classCode d)"
    and "list_all is_ascii code"
    and "\<forall>d \<in> set coll. \<not> same_ignoring_case code (cls_classCode d)"
  shows "Class_findOne coll code = None"
proof (rule ccontr)
  assume "Class_findOne coll code \<noteq> None"
  then obtain d where "find (\<lambda>d. cls_classCode d = toUpperCase code) coll = Some d"
    by (auto simp: Class_findOne_def)
  then have d: "d \<in> set coll" and e: "cls_classCode d = toUpperCase code"
    by (auto simp: find_Some_iff)
  from assms(1) d have a: "list_all is_ascii (cls_classCode d)"
    and u: "cls_classCode d = toUpperCase (cls_classCode d)" by auto
  from e u have "toUpperCase code = toUpperCase (cls_classCode d)" by simp
  then have "map toUpperCase_ascii code = map toUpperCase_ascii (cls_classCode d)"
    by (simp add: toUpperCase_ascii_string assms(2) a)
  then have "same_ignoring_case code (cls_classCode d)" by (rule upper_same_case)
  with assms(3) d show False by blast
qed

text \<open>
  The claim C8 as written fails for a code beyond ASCII. The directory holds the class
  \<open>AB12FF\<close>; the request spells \<open>ab12\<close> followed by the ligature U+FB00. The request differs
  from the stored code in more than letter case, it is one character shorter, and yet the
  lookup finds the class and the join is accepted.
\<close>

theorem ligature_request_finds_class:
  "\<not> same_ignoring_case ligature_request ''AB12FF'' \<and>
   Class_findOne ff_classes ligature_request =
     Some \<lparr>cls_classCode = ''AB12FF'', cls_isActive = True\<rparr> \<and>
   last (outbox (handler (JoinClass ''s1'' ''Ann'' ligature_request ''u1'') (init ff_classes))) =
     ({''s1''}, join_success ''u1'' ''s1'' True)"
  by (simp add: ligature_request_def ff_classes_def case_defs model_defs)

text \<open>
  C8, amended. The codes the \<^verbatim>\<open>Class\<close> collection stores are ASCII, upper-cased by the
  schema's setter, and unique. For a requested code made of ASCII characters the lookup of
  \<^verbatim>\<open>join_class\<close> and \<^verbatim>\<open>rejoin_class\<close> is a case-insensitive exact match: when the request
  differs from the code of a stored class at most in letter case, the handlers go on with
  that class; when it matches no stored code in that sense, they answer
  \<^verbatim>\<open>Invalid class code\<close> and do nothing else.
\<close>

theorem class_lookup_case_insensitive:
  assumes "\<forall>d \<in> set (classes s). list_all is_ascii (cls_classCode d) \<and>
                                 cls_classCode d = toUpperCase (cls_classCode d)"
    and "distinct (map cls_classCode (classes s))"
    and "list_all is_ascii code"
  shows "(\<forall>d \<in> set (classes s). same_ignoring_case code (cls_classCode d) \<longrightarrow>
            Class_findOne (classes s) code = Some d \<and>
            handler (JoinClass sock name code uuid) s =
              join_class sock name code uuid (Resolved (Some d)) s \<and>
            handler (RejoinClass sock stid name code) s =
              rejoin_class sock stid name code (Resolved (Some d)) s) \<and>
         ((\<forall>d \<in> set (classes s). \<not> same_ignoring_case code (cls_classCode d)) \<longrightarrow>
            Class_findOne (classes s) code = None \<and>
            handler (JoinClass sock name code uuid) s =
              emit_self sock (join_error ''Invalid class code'') s \<and>
            handler (RejoinClass sock stid name code) s =
              emit_self sock (rejoin_error ''Invalid class code'' False) s)"
proof (intro conjI ballI impI)
  fix d assume d: "d \<in> set (classes s)" "same_ignoring_case code (cls_classCode d)"
  have f: "Class_findOne (classes s) code = Some d"
    by (rule lookup_ascii_found [OF assms d])
  show "Class_findOne (classes s) code = Some d" by (rule f)
  show "handler (JoinClass sock name code uuid) s =
          join_class sock name code uuid (Resolved (Some d)) s" by (simp add: f)
  show "handler (RejoinClass sock stid name code) s =
          rejoin_class sock stid name code (Resolved (Some d)) s" by (simp add: f)
next
  assume "\<forall>d \<in> set (classes s). \<not> same_ignoring_case code (cls_classCode d)"
  then have n: "Class_findOne (classes s) code = None"
    by (rule lookup_ascii_none [OF assms(1,3)])
  show "Class_findOne (classes s) code = None" by (rule n)
  show "handler (JoinClass sock name code uuid) s =
          emit_self sock (join_error ''Invalid class code'') s"
    by (simp add: n join_class_def)
  show "handler (RejoinClass sock stid name code) s =
          emit_self sock (rejoin_error ''Invalid class code'' False) s"
    by (simp add: n rejoin_class_def)
qed

theorem class_lookup_case_insensitive_witness:
  "list_all is_ascii ''AB12CD'' \<and> ''AB12CD'' = toUpperCase ''AB12CD'' \<and>
   classes (init demo_classes) = [\<lparr>cls_classCode = ''AB12CD'', cls_isActive = True\<rparr>] \<and>
   list_all is_ascii ''ab12Cd'' \<and> same_ignoring_case ''ab12Cd'' ''AB12CD'' \<and>
   Class_findOne (classes (init demo_classes)) ''ab12Cd'' =
     Some \<lparr>cls_classCode = ''AB12CD'', cls_isActive = True\<rparr> \<and>
   handler (JoinClass ''s1'' ''Ann'' ''ab12Cd'' ''u1'') (init demo_classes) =
     join_class ''s1'' ''Ann'' ''ab12Cd'' ''u1''
       (Resolved (Some \<lparr>cls_classCode = ''AB12CD'', cls_isActive = True\<rparr>)) (init demo_classes) \<and>
   list_all is_ascii ''AB12CE'' \<and> \<not> same_ignoring_case ''AB12CE'' ''AB12CD'' \<and>
   handler (JoinClass ''s1'' ''Ann'' ''AB12CE'' ''u1'') (init demo_classes) =
     emit_self ''s1'' (join_error ''Invalid class code'') (init demo_classes) \<and>
   handler (RejoinClass ''s1'' ''u1'' ''Ann'' ''AB12CE'') (init demo_classes) =
     emit_self ''s1'' (rejoin_error ''Invalid class code'' False) (init demo_classes)"
proof -
  have cl: "classes (init demo_classes) = [\<lparr>cls_classCode = ''AB12CD'', cls_isActive = True\<rparr>]"
    by (simp add: init_def demo_classes_def)
  have st: "\<forall>d \<in> set (classes (init demo_classes)). list_all is_ascii (cls_classCode d) \<and>
              cls_classCode d = toUpperCase (cls_classCode d)"
    by (simp add: cl case_defs)
  have un: "distinct (map cls_classCode (classes (init demo_classes)))"
    by (simp add: cl)
  have a1: "list_all is_ascii ''ab12Cd''" and a2: "list_all is_ascii ''AB12CE''"
    and a3: "list_all is_ascii ''AB12CD''" and u3: "''AB12CD'' = toUpperCase ''AB12CD''"
    by (simp_all add: case_defs)
  have s1: "same_ignoring_case ''ab12Cd'' ''AB12CD''"
    and s2: "\<not> same_ignoring_case ''AB12CE'' ''AB12CD''"
    by (simp_all add: case_defs)
  have m: "\<lparr>cls_classCode = ''AB12CD'', cls_isActive = True\<rparr> \<in> set (classes (init demo_classes))"
    by (simp add: cl)
  have n: "\<forall>d \<in> set (classes (init demo_classes)). \<not> same_ignoring_case ''AB12CE'' (cls_classCode d)"
    using s2 by (simp add: cl)
  note t1 = class_lookup_case_insensitive [OF st un a1, where sock = "''s1''" and name = "''Ann''"
      and uuid = "''u1''" and stid = "''u1''", THEN conjunct1, rule_format, OF m]
  note t2 = class_lookup_case_insensitive [OF st un a2, where sock = "''s1''" and name = "''Ann''"
      and uuid = "''u1''" and stid = "''u1''", THEN conjunct2, THEN mp, OF n]
  have c: "cls_classCode \<lparr>cls_classCode = ''AB12CD'', cls_isActive = True\<rparr> = ''AB12CD''" by simp
  note f = t1 [unfolded c, OF s1, THEN conjunct1]
  note j = t1 [unfolded c, OF s1, THEN conjunct2, THEN conjunct1]
  note e1 = t2 [THEN conjunct2, THEN conjunct1]
  note e2 = t2 [THEN conjunct2, THEN conjunct2]
  show ?thesis
    by (intro conjI) (fact a3 u3 cl a1 s1 f j a2 s2 e1 e2)+
qed

subsection \<open>Updates of a connection that has not joined\<close>

text \<open>
  C10. A \<^verbatim>\<open>code_update\<close> from a connection with no session in the cache changes nothing:
  the cache, the timers, the store calls and the outbox are those of the state before.
\<close>

theorem code_update_not_joined_noop:
  "cache_get (inMemoryCache s) sock = None \<Longrightarrow> code_update sock h c s = s"
  by (simp add: code_update_def)

theorem code_update_not_joined_noop_witness:
  "cache_get (inMemoryCache (init [])) ''s1'' = None \<and>
   code_update ''s1'' ''<p>'' ''p{}'' (init []) = init []"
  using code_update_not_joined_noop [of "init []" "''s1''" "''<p>''" "''p{}''"]
  by (simp add: init_def cache_get_def)

end
